theory Spec2Isabelle
  imports Main "HOL-Library.Multiset"
begin

section \<open>Values, errors and responses\<close>

text \<open>
  The server is an Express application (\<^verbatim>\<open>index.js\<close>) over two Mongoose models.
  A request field is either absent (\<^verbatim>\<open>undefined\<close>) or a string, which is how the
  API documents its bodies and query parameters. Strings are ASCII.
\<close>

type_synonym oid = nat

datatype jsval = Undefined | Str string

text \<open>JavaScript truthiness: \<^verbatim>\<open>!v\<close> holds for \<^verbatim>\<open>undefined\<close> and for the empty string.\<close>

fun truthy :: "jsval \<Rightarrow> bool" where
  "truthy Undefined = False"
| "truthy (Str s) = (s \<noteq> [])"

text \<open>The string inside a value that a truthiness test has already let through.\<close>

fun string_of :: "jsval \<Rightarrow> string" where
  "string_of (Str s) = s"
| "string_of Undefined = []"

text \<open>\<^verbatim>\<open>v || d\<close> for a default string \<open>d\<close>.\<close>

fun js_or :: "jsval \<Rightarrow> string \<Rightarrow> string" where
  "js_or Undefined d = d"
| "js_or (Str s) d = (if s = [] then d else s)"

text \<open>
  What the libraries throw: \<^verbatim>\<open>jsonwebtoken\<close> (a token that does not parse or whose
  signature does not match; an expired token), Mongoose (a value that does not cast to
  the type of its path; a failed validator) and the MongoDB server (a duplicate key of
  a unique index).
\<close>

datatype error =
    JsonWebTokenError
  | TokenExpiredError
  | CastError
  | ValidationError
  | MongoServerError

record user =
  user_id :: oid
  name :: string
  email :: string
  password :: string

record task =
  task_id :: oid
  title :: string
  description :: string
  status :: string
  priority :: string
  dueDate :: int
  reminderDate :: "int option"
  userId :: oid

text \<open>The payload \<^verbatim>\<open>{ id, iat, exp }\<close> of a token, times in seconds.\<close>

record jwt_payload =
  jwt_id :: oid
  jwt_iat :: int
  jwt_exp :: int

text \<open>
  The JSON bodies the handlers send: \<^verbatim>\<open>{ error }\<close>, \<^verbatim>\<open>{ message }\<close>, the registration
  body \<^verbatim>\<open>{ message, user: { id, name, email }, token }\<close>, the login body
  \<^verbatim>\<open>{ message, token }\<close>, a task, a list of tasks, and \<^verbatim>\<open>{ message, task }\<close>.
\<close>

datatype body =
    ErrorJson string
  | MessageJson string
  | RegisterJson string oid string string string
  | LoginJson string string
  | TaskJson task
  | TasksJson "task list"
  | ReminderJson string task

datatype response = Response nat body

text \<open>
  The primitives of the libraries and of the runtime that the handlers call, taken as
  parameters: verification of a token's signature against \<^verbatim>\<open>process.env.JWT_SECRET\<close>
  together with the parse of its payload (\<open>None\<close> when either fails), signing, the
  bcrypt hash and comparison, Mongoose's cast of a string to an ObjectId, JavaScript's
  \<^verbatim>\<open>new Date(string)\<close> and Mongoose's cast of a non-empty string to a Date
  (\<open>None\<close> for an invalid date), both in milliseconds.
\<close>

record env =
  jwt_decode :: "string \<Rightarrow> jwt_payload option"
  jwt_encode :: "jwt_payload \<Rightarrow> string"
  bcrypt_hash :: "string \<Rightarrow> string"
  bcrypt_compare :: "string \<Rightarrow> string \<Rightarrow> bool"
  castObjectId :: "string \<Rightarrow> oid option"
  newDate :: "string \<Rightarrow> int option"
  castDate :: "string \<Rightarrow> int option"

text \<open>
  The database: the two collections in insertion order, and the source of fresh
  ObjectIds (an id is drawn when a document is constructed and is never reused).
\<close>

record db =
  users :: "user list"
  tasks :: "task list"
  oid_counter :: nat

section \<open>Strings\<close>

text \<open>\<^verbatim>\<open>s.split(sep)\<close> for a one-character separator: never the empty list.\<close>

fun split_acc :: "char \<Rightarrow> string \<Rightarrow> string \<Rightarrow> string list" where
  "split_acc sep acc [] = [rev acc]"
| "split_acc sep acc (c # cs) =
     (if c = sep then rev acc # split_acc sep [] cs else split_acc sep (c # acc) cs)"

definition js_split :: "char \<Rightarrow> string \<Rightarrow> string list" where
  "js_split sep s = split_acc sep [] s"

text \<open>\<^verbatim>\<open>xs[i]\<close>: \<^verbatim>\<open>undefined\<close> past the end.\<close>

definition js_index :: "string list \<Rightarrow> nat \<Rightarrow> jsval" where
  "js_index xs i = (if i < length xs then Str (xs ! i) else Undefined)"

text \<open>The white space that \<^verbatim>\<open>String.prototype.trim\<close> removes, within ASCII.\<close>

definition is_space :: "char \<Rightarrow> bool" where
  "is_space c = (c \<in> set [CHR '' '', CHR 0x09, CHR 0x0A, CHR 0x0B, CHR 0x0C, CHR 0x0D])"

definition trim :: "string \<Rightarrow> string" where
  "trim s = rev (dropWhile is_space (rev (dropWhile is_space s)))"

definition lower_char :: "char \<Rightarrow> char" where
  "lower_char c =
     (let n = (of_char c :: nat) in if 65 \<le> n \<and> n \<le> 90 then char_of (n + 32) else c)"

definition toLowerCase :: "string \<Rightarrow> string" where
  "toLowerCase s = map lower_char s"

section \<open>The token verifier and the authentication middleware\<close>

text \<open>
  \<^verbatim>\<open>jwt.verify(token, secret)\<close> at clock \<open>now\<close> (seconds): a token that does not
  parse or whose signature does not match throws JsonWebTokenError; one whose
  \<^verbatim>\<open>exp\<close> the clock has reached throws TokenExpiredError; otherwise the payload.
\<close>

definition jwt_verify :: "env \<Rightarrow> int \<Rightarrow> string \<Rightarrow> error + jwt_payload" where
  "jwt_verify e now token =
     (case jwt_decode e token of
        None \<Rightarrow> Inl JsonWebTokenError
      | Some p \<Rightarrow> if jwt_exp p \<le> now then Inl TokenExpiredError else Inr p)"

text \<open>\<^verbatim>\<open>jwt.sign({ id }, secret, { expiresIn: '24h' })\<close>.\<close>

definition jwt_sign :: "env \<Rightarrow> int \<Rightarrow> oid \<Rightarrow> string" where
  "jwt_sign e now i = jwt_encode e \<lparr>jwt_id = i, jwt_iat = now, jwt_exp = now + 86400\<rparr>"

definition User_findById :: "db \<Rightarrow> oid \<Rightarrow> user option" where
  "User_findById st i = find (\<lambda>u. user_id u = i) (users st)"

text \<open>\<^verbatim>\<open>authHeader && authHeader.split(' ')[1]\<close>.\<close>

definition header_token :: "string option \<Rightarrow> jsval" where
  "header_token authHeader =
     (case authHeader of
        None \<Rightarrow> Undefined
      | Some h \<Rightarrow> if h = [] then Str [] else js_index (js_split (CHR '' '') h) 1)"

text \<open>
  \<^verbatim>\<open>authenticateToken\<close>: \<open>Inl\<close> is the response it sends itself, \<open>Inr\<close> the payload
  it stores in \<^verbatim>\<open>req.user\<close> before calling \<^verbatim>\<open>next()\<close>. One \<^verbatim>\<open>catch\<close> answers every
  error of \<^verbatim>\<open>jwt.verify\<close>.
\<close>

definition authenticateToken ::
  "env \<Rightarrow> int \<Rightarrow> db \<Rightarrow> string option \<Rightarrow> response + jwt_payload" where
  "authenticateToken e now st authHeader =
     (let token = header_token authHeader in
      if \<not> truthy token
      then Inl (Response 401 (ErrorJson ''Access denied. No token provided.''))
      else
        (case jwt_verify e now (string_of token) of
           Inl err \<Rightarrow> Inl (Response 400 (ErrorJson ''Invalid or expired token.''))
         | Inr verified \<Rightarrow>
             (case User_findById st (jwt_id verified) of
                None \<Rightarrow> Inl (Response 401 (ErrorJson ''Invalid token. User not found.''))
              | Some u \<Rightarrow> Inr verified)))"

section \<open>The user model and the authentication routes\<close>

text \<open>
  \<^verbatim>\<open>UserSchema\<close>: \<^verbatim>\<open>name\<close> is trimmed; \<^verbatim>\<open>email\<close> is trimmed and lower-cased and has a
  unique index; \<^verbatim>\<open>password\<close> has \<^verbatim>\<open>minlength: 6\<close>; all three are required. Mongoose
  runs the setters of a path on a document's value and on the value of a query filter.
\<close>

definition User_findOne :: "db \<Rightarrow> string \<Rightarrow> user option" where
  "User_findOne st email' = find (\<lambda>u. email u = toLowerCase (trim email')) (users st)"

definition new_User :: "db \<Rightarrow> string \<Rightarrow> string \<Rightarrow> string \<Rightarrow> user" where
  "new_User st name' email' password' =
     \<lparr>user_id = oid_counter st, name = trim name', email = toLowerCase (trim email'),
      password = password'\<rparr>"

definition User_validate :: "user \<Rightarrow> bool" where
  "User_validate u =
     (name u \<noteq> [] \<and> email u \<noteq> [] \<and> password u \<noteq> [] \<and> 6 \<le> length (password u))"

text \<open>
  \<^verbatim>\<open>newUser.save()\<close>: validation, then the pre-save hook that replaces the password
  by its bcrypt hash, then the insert, which the unique index on \<^verbatim>\<open>email\<close> can refuse.
\<close>

definition User_save :: "env \<Rightarrow> db \<Rightarrow> user \<Rightarrow> error + db" where
  "User_save e st u =
     (if \<not> User_validate u then Inl ValidationError
      else
        (let hashed = u\<lparr>password := bcrypt_hash e (password u)\<rparr> in
         if email hashed \<in> set (map email (users st)) then Inl MongoServerError
         else Inr (st\<lparr>users := users st @ [hashed]\<rparr>)))"

definition register :: "env \<Rightarrow> int \<Rightarrow> db \<Rightarrow> jsval \<Rightarrow> jsval \<Rightarrow> jsval \<Rightarrow> response \<times> db" where
  "register e now st name' email' password' =
     (if \<not> truthy name' \<or> \<not> truthy email' \<or> \<not> truthy password'
      then (Response 400 (MessageJson ''Please provide name, email, and password''), st)
      else
        (case User_findOne st (string_of email') of
           Some existingUser \<Rightarrow> (Response 400 (ErrorJson ''Email already in use''), st)
         | None \<Rightarrow>
             (let newUser = new_User st (string_of name') (string_of email') (string_of password');
                  st1 = st\<lparr>oid_counter := Suc (oid_counter st)\<rparr>
              in case User_save e st1 newUser of
                   Inl err \<Rightarrow> (Response 500 (ErrorJson ''Server error during registration''), st1)
                 | Inr st2 \<Rightarrow>
                     (Response 201
                        (RegisterJson ''User registered successfully'' (user_id newUser)
                           (name newUser) (email newUser) (jwt_sign e now (user_id newUser))),
                      st2))))"

definition login :: "env \<Rightarrow> int \<Rightarrow> db \<Rightarrow> jsval \<Rightarrow> jsval \<Rightarrow> response \<times> db" where
  "login e now st email' password' =
     (if \<not> truthy email' \<or> \<not> truthy password'
      then (Response 400 (MessageJson ''Please provide email and password''), st)
      else
        (case User_findOne st (string_of email') of
           None \<Rightarrow> (Response 401 (ErrorJson ''Invalid credentials''), st)
         | Some u \<Rightarrow>
             if \<not> bcrypt_compare e (string_of password') (password u)
             then (Response 401 (ErrorJson ''Invalid credentials''), st)
             else (Response 200 (LoginJson ''Login successful'' (jwt_sign e now (user_id u))), st)))"

section \<open>The task model and the task routes\<close>

text \<open>
  Modelled from the spec: \<^verbatim>\<open>Models/TaskModel\<close>, the schema that \<^verbatim>\<open>index.js\<close> requires,
  is not among the sources. The specification's data model gives it: \<^verbatim>\<open>title\<close> and
  \<^verbatim>\<open>description\<close> required strings, \<^verbatim>\<open>status\<close> one of pending, in-progress, completed,
  \<^verbatim>\<open>priority\<close> one of low, medium, high, \<^verbatim>\<open>dueDate\<close> a required date, \<^verbatim>\<open>reminderDate\<close>
  an optional date, \<^verbatim>\<open>userId\<close> the owner's ObjectId.
\<close>

definition status_enum :: "string list" where
  "status_enum = [''pending'', ''in-progress'', ''completed'']"

text \<open>Modelled from the spec: the values of \<^verbatim>\<open>priority\<close> in the absent \<^verbatim>\<open>Models/TaskModel\<close>.\<close>

definition priority_enum :: "string list" where
  "priority_enum = [''low'', ''medium'', ''high'']"

text \<open>
  Modelled from the spec: the validators of the absent \<^verbatim>\<open>Models/TaskModel\<close> that a save
  runs, required \<^verbatim>\<open>title\<close> and \<^verbatim>\<open>description\<close> and the two enumerations.
\<close>

definition Task_validate :: "task \<Rightarrow> bool" where
  "Task_validate t =
     (title t \<noteq> [] \<and> description t \<noteq> [] \<and> status t \<in> set status_enum \<and>
      priority t \<in> set priority_enum)"

text \<open>
  \<^verbatim>\<open>POST /tasks\<close>. \<^verbatim>\<open>new Date(dueDate)\<close> of a string that is no date is an invalid
  Date, which the save rejects like any failed validator.
\<close>

definition createTask ::
  "env \<Rightarrow> db \<Rightarrow> oid \<Rightarrow> jsval \<Rightarrow> jsval \<Rightarrow> jsval \<Rightarrow> jsval \<Rightarrow> jsval \<Rightarrow> response \<times> db" where
  "createTask e st uid title' description' status' priority' dueDate' =
     (if \<not> truthy title' \<or> \<not> truthy description' \<or> \<not> truthy dueDate'
      then (Response 400 (ErrorJson ''Missing required fields''), st)
      else
        (let st1 = st\<lparr>oid_counter := Suc (oid_counter st)\<rparr> in
         case newDate e (string_of dueDate') of
           None \<Rightarrow> (Response 500 (ErrorJson ''Error creating task''), st1)
         | Some d \<Rightarrow>
             (let savedTask =
                \<lparr>task_id = oid_counter st, title = string_of title',
                 description = string_of description',
                 status = js_or status' ''pending'', priority = js_or priority' ''medium'',
                 dueDate = d, reminderDate = None, userId = uid\<rparr>
              in if \<not> Task_validate savedTask
                 then (Response 500 (ErrorJson ''Error creating task''), st1)
                 else (Response 201 (TaskJson savedTask), st1\<lparr>tasks := tasks st1 @ [savedTask]\<rparr>))))"

text \<open>
  \<^verbatim>\<open>GET /tasks\<close>: the query is \<^verbatim>\<open>{ userId }\<close>, with \<^verbatim>\<open>status\<close> and \<^verbatim>\<open>priority\<close> added
  when the query parameter is truthy; the sort is on \<^verbatim>\<open>dueDate\<close>, descending only for
  \<^verbatim>\<open>sort === 'desc'\<close>. Equal dates keep the order of insertion.
\<close>

definition list_query :: "oid \<Rightarrow> jsval \<Rightarrow> jsval \<Rightarrow> task \<Rightarrow> bool" where
  "list_query uid status' priority' t =
     (userId t = uid \<and>
      (if truthy status' then status t = string_of status' else True) \<and>
      (if truthy priority' then priority t = string_of priority' else True))"

definition listTasks :: "db \<Rightarrow> oid \<Rightarrow> jsval \<Rightarrow> jsval \<Rightarrow> jsval \<Rightarrow> response \<times> db" where
  "listTasks st uid status' priority' sort' =
     (let found = filter (list_query uid status' priority') (tasks st) in
      (Response 200
         (TasksJson
            (if sort' = Str ''desc'' then sort_key (\<lambda>t. - dueDate t) found
             else sort_key dueDate found)),
       st))"

text \<open>The filter \<^verbatim>\<open>{ _id: req.params.id, userId: req.user.id }\<close>, the id already cast.\<close>

definition owned_by :: "oid \<Rightarrow> oid \<Rightarrow> task \<Rightarrow> bool" where
  "owned_by tid uid t = (task_id t = tid \<and> userId t = uid)"

definition Task_findOne :: "db \<Rightarrow> oid \<Rightarrow> oid \<Rightarrow> task option" where
  "Task_findOne st tid uid = find (owned_by tid uid) (tasks st)"

text \<open>\<^verbatim>\<open>GET /tasks/:id\<close>. A path segment that does not cast to an ObjectId throws.\<close>

definition getTask :: "env \<Rightarrow> db \<Rightarrow> oid \<Rightarrow> string \<Rightarrow> response \<times> db" where
  "getTask e st uid id' =
     (case castObjectId e id' of
        None \<Rightarrow> (Response 500 (ErrorJson ''Error fetching task''), st)
      | Some tid \<Rightarrow>
          (case Task_findOne st tid uid of
             None \<Rightarrow> (Response 404 (ErrorJson ''Task not found''), st)
           | Some t \<Rightarrow> (Response 200 (TaskJson t), st)))"

text \<open>
  \<^verbatim>\<open>PUT /tasks/:id\<close>. The update document is
  \<^verbatim>\<open>{ title, description, status, priority, dueDate }\<close>; Mongoose (6 and later)
  removes the keys whose value is \<^verbatim>\<open>undefined\<close>, casts the rest to the types of their
  paths and, under \<^verbatim>\<open>runValidators: true\<close>, runs the validators of the paths that
  remain, all before the query is sent: a failure throws whether or not a task matches.
\<close>

fun valid_required :: "jsval \<Rightarrow> bool" where
  "valid_required Undefined = True"
| "valid_required (Str s) = (s \<noteq> [])"

fun valid_enum :: "string list \<Rightarrow> jsval \<Rightarrow> bool" where
  "valid_enum vals Undefined = True"
| "valid_enum vals (Str s) = (s \<in> set vals)"

fun valid_date :: "env \<Rightarrow> jsval \<Rightarrow> bool" where
  "valid_date e Undefined = True"
| "valid_date e (Str s) = (s \<noteq> [] \<and> castDate e s \<noteq> None)"

text \<open>
  Modelled from the spec: which validator each path of the absent \<^verbatim>\<open>Models/TaskModel\<close>
  carries; the update runs it on every path that the update document still holds.
\<close>

definition update_valid :: "env \<Rightarrow> jsval \<Rightarrow> jsval \<Rightarrow> jsval \<Rightarrow> jsval \<Rightarrow> jsval \<Rightarrow> bool" where
  "update_valid e title' description' status' priority' dueDate' =
     (valid_required title' \<and> valid_required description' \<and>
      valid_enum status_enum status' \<and> valid_enum priority_enum priority' \<and>
      valid_date e dueDate')"

fun set_string :: "jsval \<Rightarrow> string \<Rightarrow> string" where
  "set_string Undefined old = old"
| "set_string (Str s) old = s"

fun set_date :: "env \<Rightarrow> jsval \<Rightarrow> int \<Rightarrow> int" where
  "set_date e Undefined old = old"
| "set_date e (Str s) old = (case castDate e s of None \<Rightarrow> old | Some d \<Rightarrow> d)"

definition apply_update ::
  "env \<Rightarrow> jsval \<Rightarrow> jsval \<Rightarrow> jsval \<Rightarrow> jsval \<Rightarrow> jsval \<Rightarrow> task \<Rightarrow> task" where
  "apply_update e title' description' status' priority' dueDate' t =
     t\<lparr>title := set_string title' (title t),
       description := set_string description' (description t),
       status := set_string status' (status t),
       priority := set_string priority' (priority t),
       dueDate := set_date e dueDate' (dueDate t)\<rparr>"

text \<open>The first document that matches is the one replaced, or removed.\<close>

fun update_first :: "(task \<Rightarrow> bool) \<Rightarrow> (task \<Rightarrow> task) \<Rightarrow> task list \<Rightarrow> task list" where
  "update_first P f [] = []"
| "update_first P f (t # ts) = (if P t then f t # ts else t # update_first P f ts)"

fun delete_first :: "(task \<Rightarrow> bool) \<Rightarrow> task list \<Rightarrow> task list" where
  "delete_first P [] = []"
| "delete_first P (t # ts) = (if P t then ts else t # delete_first P ts)"

definition updateTask ::
  "env \<Rightarrow> db \<Rightarrow> oid \<Rightarrow> string \<Rightarrow> jsval \<Rightarrow> jsval \<Rightarrow> jsval \<Rightarrow> jsval \<Rightarrow> jsval \<Rightarrow> response \<times> db" where
  "updateTask e st uid id' title' description' status' priority' dueDate' =
     (case castObjectId e id' of
        None \<Rightarrow> (Response 500 (ErrorJson ''Error updating task''), st)
      | Some tid \<Rightarrow>
          if \<not> update_valid e title' description' status' priority' dueDate'
          then (Response 500 (ErrorJson ''Error updating task''), st)
          else
            (case Task_findOne st tid uid of
               None \<Rightarrow> (Response 404 (ErrorJson ''Task not found''), st)
             | Some t \<Rightarrow>
                 (let updatedTask = apply_update e title' description' status' priority' dueDate' t
                  in (Response 200 (TaskJson updatedTask),
                      st\<lparr>tasks := update_first (owned_by tid uid) (\<lambda>x. updatedTask) (tasks st)\<rparr>))))"

text \<open>\<^verbatim>\<open>DELETE /tasks/:id\<close>.\<close>

definition deleteTask :: "env \<Rightarrow> db \<Rightarrow> oid \<Rightarrow> string \<Rightarrow> response \<times> db" where
  "deleteTask e st uid id' =
     (case castObjectId e id' of
        None \<Rightarrow> (Response 500 (ErrorJson ''Error deleting task''), st)
      | Some tid \<Rightarrow>
          (case Task_findOne st tid uid of
             None \<Rightarrow> (Response 404 (ErrorJson ''Task not found''), st)
           | Some deletedTask \<Rightarrow>
               (Response 200 (MessageJson ''Task deleted successfully''),
                st\<lparr>tasks := delete_first (owned_by tid uid) (tasks st)\<rparr>)))"

text \<open>
  \<^verbatim>\<open>POST /tasks/:id/reminder\<close>: the task is read, its \<^verbatim>\<open>reminderDate\<close> assigned and the
  document saved under its \<^verbatim>\<open>_id\<close>; an invalid date fails the save.
\<close>

definition setReminder :: "env \<Rightarrow> db \<Rightarrow> oid \<Rightarrow> string \<Rightarrow> jsval \<Rightarrow> response \<times> db" where
  "setReminder e st uid id' reminderDate' =
     (if \<not> truthy reminderDate'
      then (Response 400 (ErrorJson ''Missing reminder date''), st)
      else
        (case castObjectId e id' of
           None \<Rightarrow> (Response 500 (ErrorJson ''Error setting reminder''), st)
         | Some tid \<Rightarrow>
             (case Task_findOne st tid uid of
                None \<Rightarrow> (Response 404 (ErrorJson ''Task not found''), st)
              | Some t \<Rightarrow>
                  (case newDate e (string_of reminderDate') of
                     None \<Rightarrow> (Response 500 (ErrorJson ''Error setting reminder''), st)
                   | Some d \<Rightarrow>
                       (let saved = t\<lparr>reminderDate := Some d\<rparr> in
                        (Response 200 (ReminderJson ''Reminder set successfully'' saved),
                         st\<lparr>tasks :=
                              update_first (\<lambda>x. task_id x = task_id t) (\<lambda>x. saved) (tasks st)\<rparr>))))))"

section \<open>The application\<close>

text \<open>
  The six routes registered with \<^verbatim>\<open>authenticateToken\<close>, and a request: one of the two
  open routes with its body, or a protected route with its Authorization header.
\<close>

datatype task_route =
    CreateTask jsval jsval jsval jsval jsval
  | ListTasks jsval jsval jsval
  | GetTask string
  | UpdateTask string jsval jsval jsval jsval jsval
  | DeleteTask string
  | SetReminder string jsval

datatype request =
    Register jsval jsval jsval
  | Login jsval jsval
  | Protected "string option" task_route

fun task_handler :: "env \<Rightarrow> db \<Rightarrow> oid \<Rightarrow> task_route \<Rightarrow> response \<times> db" where
  "task_handler e st uid (CreateTask t d s p due) = createTask e st uid t d s p due"
| "task_handler e st uid (ListTasks s p srt) = listTasks st uid s p srt"
| "task_handler e st uid (GetTask i) = getTask e st uid i"
| "task_handler e st uid (UpdateTask i t d s p due) = updateTask e st uid i t d s p due"
| "task_handler e st uid (DeleteTask i) = deleteTask e st uid i"
| "task_handler e st uid (SetReminder i r) = setReminder e st uid i r"

text \<open>
  A protected route runs its handler only when the middleware calls \<^verbatim>\<open>next()\<close>, with
  \<^verbatim>\<open>req.user.id\<close> the id of the verified payload.
\<close>

fun handle :: "env \<Rightarrow> int \<Rightarrow> db \<Rightarrow> request \<Rightarrow> response \<times> db" where
  "handle e now st (Register n em p) = register e now st n em p"
| "handle e now st (Login em p) = login e now st em p"
| "handle e now st (Protected authHeader r) =
     (case authenticateToken e now st authHeader of
        Inl resp \<Rightarrow> (resp, st)
      | Inr verified \<Rightarrow> task_handler e st (jwt_id verified) r)"

text \<open>
  The empty database, and the state after a sequence of timed requests that are
  handled one after the other, each answered before the next arrives. Requests that
  overlap are the subject of the section on registrations that overlap.
\<close>

definition empty_db :: db where
  "empty_db = \<lparr>users = [], tasks = [], oid_counter = 0\<rparr>"

fun run :: "env \<Rightarrow> db \<Rightarrow> (int \<times> request) list \<Rightarrow> db" where
  "run e st [] = st"
| "run e st ((now, r) # rs) = run e (snd (handle e now st r)) rs"

section \<open>Auxiliary notions for the statements\<close>

text \<open>
  The normal form of an email address, as the schema stores it and as a query on
  \<^verbatim>\<open>email\<close> looks it up.
\<close>

definition normalized :: "string \<Rightarrow> string" where
  "normalized s = toLowerCase (trim s)"

text \<open>
  The invariant of the database: the ids of the tasks are distinct and were drawn
  from the counter; the stored emails are in normal form and distinct.
\<close>

definition db_inv :: "db \<Rightarrow> bool" where
  "db_inv st =
     (distinct (map task_id (tasks st)) \<and>
      list_all (\<lambda>t. task_id t < oid_counter st) (tasks st) \<and>
      distinct (map email (users st)) \<and>
      list_all (\<lambda>u. normalized (email u) = email u) (users st))"

text \<open>
  The specification's wording of the header's segments, "whitespace-separated": the
  header split at every white-space character.
\<close>

fun spec_split_ws :: "string \<Rightarrow> string \<Rightarrow> string list" where
  "spec_split_ws acc [] = [rev acc]"
| "spec_split_ws acc (c # cs) =
     (if is_space c then rev acc # spec_split_ws [] cs else spec_split_ws (c # acc) cs)"

definition spec_whitespace_segments :: "string \<Rightarrow> string list" where
  "spec_whitespace_segments h = spec_split_ws [] h"

text \<open>Whether a response is the 201 of a successful registration.\<close>

fun registered :: "response \<Rightarrow> bool" where
  "registered (Response c b) = (c = 201)"

text \<open>\<open>n\<close> successive \<^verbatim>\<open>DELETE /tasks/:id\<close> calls by one caller: the last response and state.\<close>

fun delete_times :: "nat \<Rightarrow> env \<Rightarrow> db \<Rightarrow> oid \<Rightarrow> string \<Rightarrow> response \<times> db" where
  "delete_times 0 e st uid id' = deleteTask e st uid id'"
| "delete_times (Suc n) e st uid id' = delete_times n e (snd (deleteTask e st uid id')) uid id'"

section \<open>Registrations that overlap\<close>

text \<open>
  The registration handler suspends twice, at \<^verbatim>\<open>await User.findOne\<close> and at
  \<^verbatim>\<open>await newUser.save()\<close>, and the server handles other requests in between. Here
  are its two parts: the part up to the result of the lookup, which either answers
  (\<open>Some\<close>) or goes on (\<open>None\<close>), and the part after it, from \<^verbatim>\<open>new User\<close> to the
  response. Each reads or writes the store once. Run one after the other on the same
  store they are \<open>register\<close>.
\<close>

definition register_lookup :: "db \<Rightarrow> jsval \<Rightarrow> jsval \<Rightarrow> jsval \<Rightarrow> response option" where
  "register_lookup st name' email' password' =
     (if \<not> truthy name' \<or> \<not> truthy email' \<or> \<not> truthy password'
      then Some (Response 400 (MessageJson ''Please provide name, email, and password''))
      else
        (case User_findOne st (string_of email') of
           Some existingUser \<Rightarrow> Some (Response 400 (ErrorJson ''Email already in use''))
         | None \<Rightarrow> None))"

definition register_create :: "env \<Rightarrow> int \<Rightarrow> db \<Rightarrow> jsval \<Rightarrow> jsval \<Rightarrow> jsval \<Rightarrow> response \<times> db" where
  "register_create e now st name' email' password' =
     (let newUser = new_User st (string_of name') (string_of email') (string_of password');
          st1 = st\<lparr>oid_counter := Suc (oid_counter st)\<rparr>
      in case User_save e st1 newUser of
           Inl err \<Rightarrow> (Response 500 (ErrorJson ''Server error during registration''), st1)
         | Inr st2 \<Rightarrow>
             (Response 201
                (RegisterJson ''User registered successfully'' (user_id newUser)
                   (name newUser) (email newUser) (jwt_sign e now (user_id newUser))),
              st2))"

text \<open>
  The server between requests: the store, the registrations that have looked the
  email up and not yet answered (each under the number of its request, with its body
  and the result of its lookup), and the outcome of every registration answered so
  far, the email as it was sent with the response.
\<close>

record server =
  sdb :: db
  pending :: "(nat \<times> jsval \<times> jsval \<times> jsval \<times> response option) list"
  outcomes :: "(string \<times> response) list"

text \<open>
  What happens at the server, one store operation at a time: a registration arrives
  and runs up to its lookup; a pending registration resumes and runs to its response;
  or any request is handled from arrival to response with nothing in between. Only a
  registration writes to the users, and it reads them once before; every other handler
  only reads the users, so for the users these events cover every way in which
  requests can overlap.
\<close>

datatype event =
    Begin nat jsval jsval jsval
  | Finish nat int
  | Whole int request

fun log_outcome :: "request \<Rightarrow> response \<Rightarrow> (string \<times> response) list" where
  "log_outcome (Register n em p) resp = [(string_of em, resp)]"
| "log_outcome (Login em p) resp = []"
| "log_outcome (Protected h r) resp = []"

fun step :: "env \<Rightarrow> server \<Rightarrow> event \<Rightarrow> server" where
  "step e s (Begin k n em p) =
     (if k \<in> set (map fst (pending s)) then s
      else s\<lparr>pending := (k, n, em, p, register_lookup (sdb s) n em p) # pending s\<rparr>)"
| "step e s (Finish k now) =
     (case map_of (pending s) k of
        None \<Rightarrow> s
      | Some (n, em, p, answer) \<Rightarrow>
          (let result = (case answer of
                           Some resp \<Rightarrow> (resp, sdb s)
                         | None \<Rightarrow> register_create e now (sdb s) n em p)
           in s\<lparr>sdb := snd result,
                pending := filter (\<lambda>x. fst x \<noteq> k) (pending s),
                outcomes := outcomes s @ [(string_of em, fst result)]\<rparr>))"
| "step e s (Whole now r) =
     (let result = handle e now (sdb s) r
      in s\<lparr>sdb := snd result, outcomes := outcomes s @ log_outcome r (fst result)\<rparr>)"

fun exec :: "env \<Rightarrow> server \<Rightarrow> event list \<Rightarrow> server" where
  "exec e s [] = s"
| "exec e s (ev # evs) = exec e (step e s ev) evs"




text \<open>The database with every task of the given id taken out.\<close>

definition without_task :: "oid \<Rightarrow> db \<Rightarrow> db" where
  "without_task tid st = st\<lparr>tasks := filter (\<lambda>x. task_id x \<noteq> tid) (tasks st)\<rparr>"

section \<open>A concrete instance\<close>

text \<open>
  An instance of the primitives and a database with two users, Ann (id 0) and Bob
  (id 1), and three tasks, two of Ann's (ids 2 and 3) and one of Bob's (id 4).
\<close>

definition sample_env :: env where
  "sample_env =
     \<lparr>jwt_decode = map_of
        [(''token-ann'', \<lparr>jwt_id = 0, jwt_iat = 1000, jwt_exp = 87400\<rparr>),
         (''token-bob'', \<lparr>jwt_id = 1, jwt_iat = 1001, jwt_exp = 87401\<rparr>),
         (''token-old'', \<lparr>jwt_id = 0, jwt_iat = 10, jwt_exp = 500\<rparr>),
         (''token-ghost'', \<lparr>jwt_id = 9, jwt_iat = 1000, jwt_exp = 87400\<rparr>)],
      jwt_encode = (\<lambda>p. if jwt_id p = 0 then ''token-ann''
                         else if jwt_id p = 1 then ''token-bob'' else ''token-ghost''),
      bcrypt_hash = (\<lambda>s. ''hash:'' @ s),
      bcrypt_compare = (\<lambda>s h. h = ''hash:'' @ s),
      castObjectId = map_of [(''2'', 2), (''3'', 3), (''4'', 4), (''7'', 7)],
      newDate = map_of
        [(''2025-01-01'', 1735689600000), (''2024-12-01'', 1733011200000),
         (''2025-03-01'', 1740787200000)],
      castDate = map_of
        [(''2025-01-01'', 1735689600000), (''2024-12-01'', 1733011200000),
         (''2025-03-01'', 1740787200000)]\<rparr>"

definition ann_task :: task where
  "ann_task =
     \<lparr>task_id = 2, title = ''Write spec'', description = ''draft v1'', status = ''pending'',
      priority = ''medium'', dueDate = 1735689600000, reminderDate = None, userId = 0\<rparr>"

definition ann_task2 :: task where
  "ann_task2 =
     \<lparr>task_id = 3, title = ''Review'', description = ''second pass'', status = ''completed'',
      priority = ''high'', dueDate = 1733011200000, reminderDate = None, userId = 0\<rparr>"

definition bob_task :: task where
  "bob_task =
     \<lparr>task_id = 4, title = ''Plan'', description = ''next sprint'', status = ''pending'',
      priority = ''medium'', dueDate = 1740787200000, reminderDate = None, userId = 1\<rparr>"

definition sample_db :: db where
  "sample_db =
     \<lparr>users =
        [\<lparr>user_id = 0, name = ''Ann'', email = ''ann@x.com'', password = ''hash:secret1''\<rparr>,
         \<lparr>user_id = 1, name = ''Bob'', email = ''bob@x.com'', password = ''hash:secret2''\<rparr>],
      tasks = [ann_task, ann_task2, bob_task],
      oid_counter = 5\<rparr>"

text \<open>The requests that build \<open>sample_db\<close> from the empty database.\<close>

definition sample_requests :: "(int \<times> request) list" where
  "sample_requests =
     [(1000, Register (Str ''Ann'') (Str '' Ann@X.com'') (Str ''secret1'')),
      (1001, Register (Str ''Bob'') (Str ''bob@x.com'') (Str ''secret2'')),
      (1002, Protected (Some ''Bearer token-ann'')
         (CreateTask (Str ''Write spec'') (Str ''draft v1'') Undefined Undefined
            (Str ''2025-01-01''))),
      (1003, Protected (Some ''Bearer token-ann'')
         (CreateTask (Str ''Review'') (Str ''second pass'') (Str ''completed'') (Str ''high'')
            (Str ''2024-12-01''))),
      (1004, Protected (Some ''Bearer token-bob'')
         (CreateTask (Str ''Plan'') (Str ''next sprint'') Undefined Undefined
            (Str ''2025-03-01'')))]"


section \<open>The sample database is reachable\<close>

lemma sample_db_reachable: "run sample_env empty_db sample_requests = sample_db"
  by code_simp

section \<open>The Authorization header\<close>

lemma split_acc_no_sep: "sep \<notin> set s \<Longrightarrow> split_acc sep acc s = [rev acc @ s]"
  by (induction s arbitrary: acc) auto

lemma split_acc_first:
  "sep \<notin> set s \<Longrightarrow> split_acc sep acc (s @ sep # rest) = (rev acc @ s) # split_acc sep [] rest"
  by (induction s arbitrary: acc) auto

lemma split_acc_not_Nil: "split_acc sep acc s \<noteq> []"
  by (induction s arbitrary: acc) auto

lemma header_token_single: "CHR '' '' \<notin> set h \<Longrightarrow> \<not> truthy (header_token (Some h))"
  by (simp add: header_token_def js_split_def js_index_def split_acc_no_sep)

lemma header_token_scheme:
  assumes "CHR '' '' \<notin> set scheme"
  shows "header_token (Some (scheme @ CHR '' '' # rest)) = Str (hd (js_split (CHR '' '') rest))"
proof -
  have "js_split (CHR '' '') (scheme @ CHR '' '' # rest) = scheme # js_split (CHR '' '') rest"
    using split_acc_first [OF assms, of "[]" rest] by (simp add: js_split_def)
  moreover have "js_split (CHR '' '') rest \<noteq> []"
    by (simp add: js_split_def split_acc_not_Nil)
  ultimately show ?thesis
    by (cases "js_split (CHR '' '') rest") (simp_all add: header_token_def js_index_def)
qed

text \<open>The middleware depends on the header only through the token it extracts.\<close>

lemma authenticateToken_token:
  "authenticateToken e now st h =
     (if \<not> truthy (header_token h)
      then Inl (Response 401 (ErrorJson ''Access denied. No token provided.''))
      else (case jwt_verify e now (string_of (header_token h)) of
           Inl err \<Rightarrow> Inl (Response 400 (ErrorJson ''Invalid or expired token.''))
         | Inr verified \<Rightarrow>
             (case User_findById st (jwt_id verified) of
                None \<Rightarrow> Inl (Response 401 (ErrorJson ''Invalid token. User not found.''))
              | Some u \<Rightarrow> Inr verified)))"
  by (simp add: authenticateToken_def Let_def)

section \<open>The authentication guard\<close>

text \<open>
  C2. A protected request whose token is signed and unexpired but names a user that
  the user collection does not hold is answered by the middleware with 401
  "Invalid token. User not found." and the database is left as it was: the route's
  handler, and with it every write to the tasks, is never run. Without an
  Authorization header the middleware answers 401 "Access denied. No token provided."
  and likewise nothing else happens.
\<close>

theorem guard_orphan_or_missing_token:
  "(header_token h = Str tok \<and> tok \<noteq> [] \<and> jwt_decode e tok = Some p \<and> now < jwt_exp p \<and>
    User_findById st (jwt_id p) = None \<longrightarrow>
      authenticateToken e now st h =
        Inl (Response 401 (ErrorJson ''Invalid token. User not found.'')) \<and>
      handle e now st (Protected h r) =
        (Response 401 (ErrorJson ''Invalid token. User not found.''), st)) \<and>
   authenticateToken e now st None =
     Inl (Response 401 (ErrorJson ''Access denied. No token provided.'')) \<and>
   handle e now st (Protected None r) =
     (Response 401 (ErrorJson ''Access denied. No token provided.''), st)"
  by (simp add: authenticateToken_token jwt_verify_def header_token_def)

lemma ghost_token_facts:
  "header_token (Some ''Bearer token-ghost'') = Str ''token-ghost''"
  "jwt_decode sample_env ''token-ghost'' = Some \<lparr>jwt_id = 9, jwt_iat = 1000, jwt_exp = 87400\<rparr>"
  "User_findById sample_db 9 = None"
  by code_simp+

theorem guard_orphan_or_missing_token_witness:
  "header_token (Some ''Bearer token-ghost'') = Str ''token-ghost'' \<and>
   jwt_decode sample_env ''token-ghost'' = Some \<lparr>jwt_id = 9, jwt_iat = 1000, jwt_exp = 87400\<rparr> \<and>
   User_findById sample_db 9 = None \<and>
   handle sample_env 2000 sample_db (Protected (Some ''Bearer token-ghost'') (DeleteTask ''2'')) =
     (Response 401 (ErrorJson ''Invalid token. User not found.''), sample_db) \<and>
   handle sample_env 2000 sample_db (Protected None (DeleteTask ''2'')) =
     (Response 401 (ErrorJson ''Access denied. No token provided.''), sample_db)"
  using guard_orphan_or_missing_token [of "Some ''Bearer token-ghost''" "''token-ghost''" sample_env
      "\<lparr>jwt_id = 9, jwt_iat = 1000, jwt_exp = 87400\<rparr>" 2000 sample_db "DeleteTask ''2''"]
    ghost_token_facts
  by simp

text \<open>
  C4, as the code has it. Inside the middleware \<^verbatim>\<open>jwt.verify\<close> fails with
  JsonWebTokenError for a token that does not parse or whose signature does not match
  and with TokenExpiredError for one whose expiry the clock has reached; the
  middleware's single \<^verbatim>\<open>catch\<close> answers both with the same response, 400
  "Invalid or expired token.", so the client cannot tell the two kinds apart.
\<close>

theorem verify_failures_one_response:
  "(jwt_decode e tok = None \<longrightarrow> jwt_verify e now tok = Inl JsonWebTokenError) \<and>
   (jwt_decode e tok = Some p \<and> jwt_exp p \<le> now \<longrightarrow> jwt_verify e now tok = Inl TokenExpiredError) \<and>
   (header_token h = Str tok \<and> tok \<noteq> [] \<and> jwt_verify e now tok = Inl err \<longrightarrow>
      authenticateToken e now st h = Inl (Response 400 (ErrorJson ''Invalid or expired token.'')))"
  by (simp add: authenticateToken_token jwt_verify_def)

lemma old_token_facts:
  "jwt_decode sample_env ''garbage'' = None"
  "jwt_decode sample_env ''token-old'' = Some \<lparr>jwt_id = 0, jwt_iat = 10, jwt_exp = 500\<rparr>"
  "header_token (Some ''Bearer token-old'') = Str ''token-old''"
  by code_simp+

theorem verify_failures_one_response_witness:
  "jwt_decode sample_env ''garbage'' = None \<and>
   jwt_verify sample_env 2000 ''garbage'' = Inl JsonWebTokenError \<and>
   jwt_decode sample_env ''token-old'' = Some \<lparr>jwt_id = 0, jwt_iat = 10, jwt_exp = 500\<rparr> \<and>
   jwt_verify sample_env 2000 ''token-old'' = Inl TokenExpiredError \<and>
   header_token (Some ''Bearer token-old'') = Str ''token-old'' \<and>
   authenticateToken sample_env 2000 sample_db (Some ''Bearer token-old'') =
     Inl (Response 400 (ErrorJson ''Invalid or expired token.''))"
  using verify_failures_one_response [of sample_env "''garbage''" 2000]
    verify_failures_one_response [of sample_env "''token-old''" 2000
      "\<lparr>jwt_id = 0, jwt_iat = 10, jwt_exp = 500\<rparr>" "Some ''Bearer token-old''" TokenExpiredError
      sample_db]
    old_token_facts
  by simp

text \<open>
  The claim C4 as stated fails: a token that does not parse and an expired token
  fail verification in the two different ways, and the middleware delivers the same
  result for both.
\<close>

theorem verify_failures_indistinguishable:
  "jwt_verify sample_env 2000 ''garbage'' = Inl JsonWebTokenError \<and>
   jwt_verify sample_env 2000 ''token-old'' = Inl TokenExpiredError \<and>
   authenticateToken sample_env 2000 sample_db (Some ''Bearer garbage'') =
     authenticateToken sample_env 2000 sample_db (Some ''Bearer token-old'')"
  by code_simp

lemma hd_split_acc: "hd (split_acc sep acc s) = rev acc @ takeWhile (\<lambda>c. c \<noteq> sep) s"
  by (induction s arbitrary: acc) auto

text \<open>
  The token of any header, without reference to the split: what stands between the
  first space and the next one (or the end).
\<close>

lemma header_token_general:
  "truthy (header_token (Some h)) =
     (takeWhile (\<lambda>c. c \<noteq> CHR '' '') (tl (dropWhile (\<lambda>c. c \<noteq> CHR '' '') h)) \<noteq> []) \<and>
   string_of (header_token (Some h)) =
     takeWhile (\<lambda>c. c \<noteq> CHR '' '') (tl (dropWhile (\<lambda>c. c \<noteq> CHR '' '') h))"
proof (cases "CHR '' '' \<in> set h")
  case False
  then have d: "dropWhile (\<lambda>c. c \<noteq> CHR '' '') h = []" by auto
  have t: "\<not> truthy (header_token (Some h))" using False by (rule header_token_single)
  then have "string_of (header_token (Some h)) = []"
    by (cases "header_token (Some h)") simp_all
  then show ?thesis using t by (simp add: d)
next
  case True
  let ?s = "takeWhile (\<lambda>c. c \<noteq> CHR '' '') h"
  let ?r = "tl (dropWhile (\<lambda>c. c \<noteq> CHR '' '') h)"
  have ne: "dropWhile (\<lambda>c. c \<noteq> CHR '' '') h \<noteq> []" using True by auto
  then have "hd (dropWhile (\<lambda>c. c \<noteq> CHR '' '') h) = CHR '' ''"
    using hd_dropWhile [of "\<lambda>c. c \<noteq> CHR '' ''" h] by simp
  then have "dropWhile (\<lambda>c. c \<noteq> CHR '' '') h = CHR '' '' # ?r"
    using ne by (cases "dropWhile (\<lambda>c. c \<noteq> CHR '' '') h") simp_all
  then have h: "h = ?s @ CHR '' '' # ?r"
    using takeWhile_dropWhile_id [of "\<lambda>c. c \<noteq> CHR '' ''" h] by simp
  have n: "CHR '' '' \<notin> set ?s"
    using set_takeWhileD [of "CHR '' ''" "\<lambda>c. c \<noteq> CHR '' ''" h] by blast
  have "header_token (Some (?s @ CHR '' '' # ?r)) = Str (hd (js_split (CHR '' '') ?r))"
    using n by (rule header_token_scheme)
  then have "header_token (Some h) = Str (takeWhile (\<lambda>c. c \<noteq> CHR '' '') ?r)"
    using h by (simp add: js_split_def hd_split_acc)
  then show ?thesis by simp
qed

text \<open>
  C9, as the code has it. The middleware never looks at the scheme: it splits the
  header at every space character (U+0020) and takes the second segment as the token.
  For every header, that token is what stands between the header's first space and
  its next space or its end; when that is empty (no space at all, or two spaces in a
  row, or a space at the end) the answer is 401 "Access denied. No token provided.",
  as for a request without a header, and otherwise the token is verified and its user
  looked up. So a header \<open>scheme token\<close> is treated exactly like \<open>Bearer token\<close> whatever
  the scheme is (\<open>Basic\<close> with a valid token authenticates), and a header with two spaces
  after the scheme, or without a space, is rejected.
\<close>

theorem guard_takes_second_space_segment:
  "authenticateToken e now st (Some h) =
     (let token = takeWhile (\<lambda>c. c \<noteq> CHR '' '') (tl (dropWhile (\<lambda>c. c \<noteq> CHR '' '') h)) in
      if token = [] then Inl (Response 401 (ErrorJson ''Access denied. No token provided.''))
      else
        (case jwt_verify e now token of
           Inl err \<Rightarrow> Inl (Response 400 (ErrorJson ''Invalid or expired token.''))
         | Inr verified \<Rightarrow>
             (case User_findById st (jwt_id verified) of
                None \<Rightarrow> Inl (Response 401 (ErrorJson ''Invalid token. User not found.''))
              | Some u \<Rightarrow> Inr verified))) \<and>
   (CHR '' '' \<notin> set scheme \<and> CHR '' '' \<notin> set tok \<longrightarrow>
      header_token (Some (scheme @ '' '' @ tok)) = Str tok) \<and>
   (CHR '' '' \<notin> set scheme \<longrightarrow>
      authenticateToken e now st (Some (scheme @ '' '' @ rest)) =
      authenticateToken e now st (Some (''Bearer '' @ rest))) \<and>
   (CHR '' '' \<notin> set scheme \<longrightarrow>
      authenticateToken e now st (Some (scheme @ ''  '' @ rest)) =
        Inl (Response 401 (ErrorJson ''Access denied. No token provided.''))) \<and>
   (CHR '' '' \<notin> set h \<longrightarrow>
      authenticateToken e now st (Some h) =
        Inl (Response 401 (ErrorJson ''Access denied. No token provided.'')) \<and>
      authenticateToken e now st None =
        Inl (Response 401 (ErrorJson ''Access denied. No token provided.'')))"
proof (intro conjI impI)
  show "authenticateToken e now st (Some h) =
     (let token = takeWhile (\<lambda>c. c \<noteq> CHR '' '') (tl (dropWhile (\<lambda>c. c \<noteq> CHR '' '') h)) in
      if token = [] then Inl (Response 401 (ErrorJson ''Access denied. No token provided.''))
      else
        (case jwt_verify e now token of
           Inl err \<Rightarrow> Inl (Response 400 (ErrorJson ''Invalid or expired token.''))
         | Inr verified \<Rightarrow>
             (case User_findById st (jwt_id verified) of
                None \<Rightarrow> Inl (Response 401 (ErrorJson ''Invalid token. User not found.''))
              | Some u \<Rightarrow> Inr verified)))"
    using header_token_general [of h] by (simp add: authenticateToken_token Let_def)
next
  assume "CHR '' '' \<notin> set scheme \<and> CHR '' '' \<notin> set tok"
  then show "header_token (Some (scheme @ '' '' @ tok)) = Str tok"
    by (simp add: header_token_scheme js_split_def split_acc_no_sep)
next
  assume a: "CHR '' '' \<notin> set scheme"
  have "header_token (Some (scheme @ '' '' @ rest)) = header_token (Some (''Bearer'' @ '' '' @ rest))"
    using header_token_scheme [OF a, of rest] header_token_scheme [of "''Bearer''" rest] by simp
  then show "authenticateToken e now st (Some (scheme @ '' '' @ rest)) =
      authenticateToken e now st (Some (''Bearer '' @ rest))"
    by (simp add: authenticateToken_token)
next
  assume a: "CHR '' '' \<notin> set scheme"
  have "header_token (Some (scheme @ CHR '' '' # CHR '' '' # rest)) = Str []"
    using header_token_scheme [OF a, of "CHR '' '' # rest"] by (simp add: js_split_def)
  then show "authenticateToken e now st (Some (scheme @ ''  '' @ rest)) =
        Inl (Response 401 (ErrorJson ''Access denied. No token provided.''))"
    by (simp add: authenticateToken_token)
next
  assume a: "CHR '' '' \<notin> set h"
  show "authenticateToken e now st (Some h) =
        Inl (Response 401 (ErrorJson ''Access denied. No token provided.''))"
    using header_token_single [OF a] by (simp add: authenticateToken_token)
  show "authenticateToken e now st None =
        Inl (Response 401 (ErrorJson ''Access denied. No token provided.''))"
    by (simp add: authenticateToken_token header_token_def)
qed

theorem guard_takes_second_space_segment_witness:
  "CHR '' '' \<notin> set ''Basic'' \<and> CHR '' '' \<notin> set ''token-ann'' \<and>
   header_token (Some ''Basic token-ann'') = Str ''token-ann'' \<and>
   authenticateToken sample_env 2000 sample_db (Some ''Basic token-ann'') =
     authenticateToken sample_env 2000 sample_db (Some ''Bearer token-ann'') \<and>
   authenticateToken sample_env 2000 sample_db (Some ''Bearer token-ann'') =
     Inr \<lparr>jwt_id = 0, jwt_iat = 1000, jwt_exp = 87400\<rparr> \<and>
   authenticateToken sample_env 2000 sample_db (Some ''Bearer  token-ann'') =
     Inl (Response 401 (ErrorJson ''Access denied. No token provided.'')) \<and>
   authenticateToken sample_env 2000 sample_db (Some ''token-ann'') =
     Inl (Response 401 (ErrorJson ''Access denied. No token provided.''))"
proof -
  have n: "CHR '' '' \<notin> set ''Basic''" "CHR '' '' \<notin> set ''token-ann''"
    "CHR '' '' \<notin> set ''Bearer''" by simp_all
  have v: "authenticateToken sample_env 2000 sample_db (Some ''Bearer token-ann'') =
     Inr \<lparr>jwt_id = 0, jwt_iat = 1000, jwt_exp = 87400\<rparr>" by code_simp
  show ?thesis
    using n v
      guard_takes_second_space_segment [of sample_env 2000 sample_db "''token-ann''" "''Basic''"
        "''token-ann''" "''token-ann''"]
      guard_takes_second_space_segment [of sample_env 2000 sample_db "''token-ann''" "''Bearer''"
        "''token-ann''" "''token-ann''"]
    by simp
qed

text \<open>
  The claim C9 as stated fails on "whitespace-separated": in the header
  \<open>Bearer<TAB>token-ann\<close> the second white-space-separated segment is Ann's valid
  token, which authenticates after \<open>Bearer\<close> and a space, yet the middleware finds no
  token in it.
\<close>

theorem whitespace_segment_not_taken:
  "js_index (spec_whitespace_segments (''Bearer'' @ [CHR 0x09] @ ''token-ann'')) 1 =
     Str ''token-ann'' \<and>
   authenticateToken sample_env 2000 sample_db (Some ''Bearer token-ann'') =
     Inr \<lparr>jwt_id = 0, jwt_iat = 1000, jwt_exp = 87400\<rparr> \<and>
   authenticateToken sample_env 2000 sample_db (Some (''Bearer'' @ [CHR 0x09] @ ''token-ann'')) =
     Inl (Response 401 (ErrorJson ''Access denied. No token provided.''))"
  by code_simp

section \<open>Scoping of the task routes by owner\<close>

lemma find_None_iff2: "find P xs = None \<longleftrightarrow> (\<forall>x\<in>set xs. \<not> P x)"
  by (induction xs) auto

lemma foreign_not_owned:
  assumes "t \<in> set (tasks st)" "task_id t = tid" "userId t \<noteq> uid"
    "distinct (map task_id (tasks st))"
  shows "Task_findOne st tid uid = None"
proof -
  have inj: "inj_on task_id (set (tasks st))"
    using assms(4) by (simp add: distinct_map)
  have "\<And>x. x \<in> set (tasks st) \<Longrightarrow> task_id x = tid \<Longrightarrow> x = t"
    using inj_onD [OF inj _ _ assms(1)] assms(2) by simp
  then show ?thesis
    using assms(3) by (auto simp: Task_findOne_def find_None_iff2 owned_by_def)
qed

lemma without_task_findOne: "Task_findOne (without_task tid st) tid uid = None"
  by (simp add: Task_findOne_def without_task_def find_None_iff2 owned_by_def)

lemma sample_ids: "distinct (map task_id (tasks sample_db))"
  by code_simp

text \<open>
  C1, as the code has it. Let a task be owned by a user other than the caller, in a
  database whose task ids are distinct. Then \<^verbatim>\<open>GET\<close> and \<^verbatim>\<open>DELETE\<close> on its id answer
  404 "Task not found"; \<^verbatim>\<open>PUT\<close> answers 404 when the fields it carries pass the casts
  and validators of the update, and 500 "Error updating task" when they do not; the
  database is unchanged in every case, and every response is the one the same request
  gets when no task of that id exists at all.
\<close>

theorem foreign_task_is_not_found:
  "t \<in> set (tasks st) \<and> task_id t = tid \<and> userId t \<noteq> uid \<and>
   distinct (map task_id (tasks st)) \<and> castObjectId e id' = Some tid \<longrightarrow>
     getTask e st uid id' = (Response 404 (ErrorJson ''Task not found''), st) \<and>
     deleteTask e st uid id' = (Response 404 (ErrorJson ''Task not found''), st) \<and>
     updateTask e st uid id' title' description' status' priority' dueDate' =
       (if update_valid e title' description' status' priority' dueDate'
        then Response 404 (ErrorJson ''Task not found'')
        else Response 500 (ErrorJson ''Error updating task''), st) \<and>
     fst (getTask e (without_task tid st) uid id') = fst (getTask e st uid id') \<and>
     fst (deleteTask e (without_task tid st) uid id') = fst (deleteTask e st uid id') \<and>
     fst (updateTask e (without_task tid st) uid id' title' description' status' priority' dueDate') =
       fst (updateTask e st uid id' title' description' status' priority' dueDate')"
proof (intro impI)
  assume a: "t \<in> set (tasks st) \<and> task_id t = tid \<and> userId t \<noteq> uid \<and>
   distinct (map task_id (tasks st)) \<and> castObjectId e id' = Some tid"
  then have n: "Task_findOne st tid uid = None"
    using foreign_not_owned [of t st tid uid] by simp
  have c: "castObjectId e id' = Some tid" using a by simp
  show "getTask e st uid id' = (Response 404 (ErrorJson ''Task not found''), st) \<and>
     deleteTask e st uid id' = (Response 404 (ErrorJson ''Task not found''), st) \<and>
     updateTask e st uid id' title' description' status' priority' dueDate' =
       (if update_valid e title' description' status' priority' dueDate'
        then Response 404 (ErrorJson ''Task not found'')
        else Response 500 (ErrorJson ''Error updating task''), st) \<and>
     fst (getTask e (without_task tid st) uid id') = fst (getTask e st uid id') \<and>
     fst (deleteTask e (without_task tid st) uid id') = fst (deleteTask e st uid id') \<and>
     fst (updateTask e (without_task tid st) uid id' title' description' status' priority' dueDate') =
       fst (updateTask e st uid id' title' description' status' priority' dueDate')"
    by (simp add: getTask_def deleteTask_def updateTask_def n c without_task_findOne)
qed

theorem foreign_task_is_not_found_witness:
  "ann_task \<in> set (tasks sample_db) \<and> task_id ann_task = 2 \<and> userId ann_task \<noteq> 1 \<and>
   distinct (map task_id (tasks sample_db)) \<and> castObjectId sample_env ''2'' = Some 2 \<and>
   getTask sample_env sample_db 1 ''2'' = (Response 404 (ErrorJson ''Task not found''), sample_db) \<and>
   deleteTask sample_env sample_db 1 ''2'' = (Response 404 (ErrorJson ''Task not found''), sample_db) \<and>
   updateTask sample_env sample_db 1 ''2'' Undefined Undefined (Str ''completed'') Undefined Undefined =
     (Response 404 (ErrorJson ''Task not found''), sample_db) \<and>
   fst (getTask sample_env (without_task 2 sample_db) 1 ''2'') = Response 404 (ErrorJson ''Task not found'')"
proof -
  have h: "ann_task \<in> set (tasks sample_db)" "task_id ann_task = 2" "userId ann_task \<noteq> 1"
    "castObjectId sample_env ''2'' = Some 2"
    "update_valid sample_env Undefined Undefined (Str ''completed'') Undefined Undefined"
    by code_simp+
  show ?thesis
    using h sample_ids
      foreign_task_is_not_found [of ann_task sample_db 2 1 sample_env "''2''" Undefined Undefined
        "Str ''completed''" Undefined Undefined]
    by simp
qed

text \<open>
  The claim C1 as stated fails for \<^verbatim>\<open>PUT\<close>: Bob, authenticated, updates Ann's task 2
  with a \<^verbatim>\<open>dueDate\<close> that is no date, and the answer is 500, not 404.
\<close>

theorem foreign_update_invalid_fields:
  "ann_task \<in> set (tasks sample_db) \<and> task_id ann_task = 2 \<and> userId ann_task = 0 \<and>
   castObjectId sample_env ''2'' = Some 2 \<and>
   authenticateToken sample_env 2000 sample_db (Some ''Bearer token-bob'') =
     Inr \<lparr>jwt_id = 1, jwt_iat = 1001, jwt_exp = 87401\<rparr> \<and>
   handle sample_env 2000 sample_db
     (Protected (Some ''Bearer token-bob'')
        (UpdateTask ''2'' Undefined Undefined Undefined Undefined (Str ''someday''))) =
     (Response 500 (ErrorJson ''Error updating task''), sample_db)"
  by code_simp

section \<open>Deleting what is not there\<close>

lemma delete_first_subset: "set (delete_first P xs) \<subseteq> set xs"
  by (induction xs) auto

lemma delete_first_distinct:
  "distinct (map f xs) \<Longrightarrow> distinct (map f (delete_first P xs))"
  using delete_first_subset [of P] by (induction xs) (auto simp: image_iff)

lemma delete_first_gone:
  "distinct (map task_id xs) \<Longrightarrow> find (owned_by tid uid) (delete_first (owned_by tid uid) xs) = None"
proof (induction xs)
  case Nil
  then show ?case by simp
next
  case (Cons a xs)
  show ?case
  proof (cases "owned_by tid uid a")
    case True
    then have "\<forall>x\<in>set xs. task_id x \<noteq> tid"
      using Cons.prems by (force simp: owned_by_def)
    then show ?thesis using True by (simp add: find_None_iff2 owned_by_def)
  next
    case False
    then show ?thesis using Cons by simp
  qed
qed

lemma delete_then_absent:
  "distinct (map task_id (tasks st)) \<Longrightarrow> castObjectId e id' = Some tid \<Longrightarrow>
   Task_findOne (snd (deleteTask e st uid id')) tid uid = None"
  by (cases "Task_findOne st tid uid")
     (simp_all add: deleteTask_def Task_findOne_def delete_first_gone)

lemma delete_times_absent:
  "castObjectId e id' = Some tid \<Longrightarrow> Task_findOne st tid uid = None \<Longrightarrow>
   delete_times n e st uid id' = (Response 404 (ErrorJson ''Task not found''), st)"
  by (induction n) (simp_all add: deleteTask_def)

lemma not_owned_iff:
  "(Task_findOne st tid uid = None) = (\<forall>t\<in>set (tasks st). task_id t \<noteq> tid \<or> userId t \<noteq> uid)"
  by (auto simp: Task_findOne_def find_None_iff2 owned_by_def)

lemma delete_times_malformed:
  "castObjectId e id' = None \<Longrightarrow>
   delete_times n e st uid id' = (Response 500 (ErrorJson ''Error deleting task''), st)"
  by (induction n) (simp_all add: deleteTask_def)

text \<open>
  C8, as the code has it. When the id in the path is a well-formed ObjectId and no
  stored task has that id with the caller as owner, \<^verbatim>\<open>DELETE\<close> answers 404 "Task not found" and leaves
  the database unchanged, and so does every one of any number of repeated calls. In a
  database whose task ids are distinct, a first \<^verbatim>\<open>DELETE\<close>, whatever its outcome, leaves
  no task of that id under the caller, so every later call answers 404 and changes
  nothing. When the id in the path is not a well-formed ObjectId, the query throws and
  every call answers 500 "Error deleting task", again with the database unchanged.
\<close>

theorem delete_absent_is_not_found:
  "(castObjectId e id' = Some tid \<and>
    (\<forall>t\<in>set (tasks st). task_id t \<noteq> tid \<or> userId t \<noteq> uid) \<longrightarrow>
      deleteTask e st uid id' = (Response 404 (ErrorJson ''Task not found''), st) \<and>
      delete_times n e st uid id' = (Response 404 (ErrorJson ''Task not found''), st)) \<and>
   (castObjectId e id' = Some tid \<and> distinct (map task_id (tasks st)) \<longrightarrow>
      (\<forall>t\<in>set (tasks (snd (deleteTask e st uid id'))). task_id t \<noteq> tid \<or> userId t \<noteq> uid) \<and>
      Task_findOne (snd (deleteTask e st uid id')) tid uid = None \<and>
      delete_times (Suc n) e st uid id' =
        (Response 404 (ErrorJson ''Task not found''), snd (deleteTask e st uid id'))) \<and>
   (castObjectId e id' = None \<longrightarrow>
      deleteTask e st uid id' = (Response 500 (ErrorJson ''Error deleting task''), st) \<and>
      delete_times n e st uid id' = (Response 500 (ErrorJson ''Error deleting task''), st))"
proof -
  have a: "\<forall>t\<in>set (tasks (snd (deleteTask e st uid id'))). task_id t \<noteq> tid \<or> userId t \<noteq> uid"
    if "castObjectId e id' = Some tid" "distinct (map task_id (tasks st))"
  proof -
    have "Task_findOne (snd (deleteTask e st uid id')) tid uid = None"
      using that by (intro delete_then_absent)
    then show ?thesis by (simp only: not_owned_iff)
  qed
  show ?thesis
    using delete_times_absent [of e id' tid st uid n] delete_times_absent [of e id' tid st uid 0]
      delete_then_absent [of st e id' tid uid] a
      delete_times_absent [of e id' tid "snd (deleteTask e st uid id')" uid n]
      delete_times_malformed [of e id' n st uid] delete_times_malformed [of e id' 0 st uid]
      not_owned_iff [of st tid uid]
    by simp
qed

theorem delete_absent_is_not_found_witness:
  "castObjectId sample_env ''7'' = Some 7 \<and> list_all (\<lambda>t. task_id t \<noteq> 7 \<or> userId t \<noteq> 0) (tasks sample_db) \<and>
   deleteTask sample_env sample_db 0 ''7'' = (Response 404 (ErrorJson ''Task not found''), sample_db) \<and>
   delete_times 3 sample_env sample_db 0 ''7'' = (Response 404 (ErrorJson ''Task not found''), sample_db) \<and>
   castObjectId sample_env ''2'' = Some 2 \<and> distinct (map task_id (tasks sample_db)) \<and>
   deleteTask sample_env sample_db 0 ''2'' =
     (Response 200 (MessageJson ''Task deleted successfully''),
      sample_db\<lparr>tasks := [ann_task2, bob_task]\<rparr>) \<and>
   delete_times 3 sample_env sample_db 0 ''2'' =
     (Response 404 (ErrorJson ''Task not found''), sample_db\<lparr>tasks := [ann_task2, bob_task]\<rparr>) \<and>
   castObjectId sample_env ''not-an-id'' = None \<and>
   delete_times 3 sample_env sample_db 0 ''not-an-id'' =
     (Response 500 (ErrorJson ''Error deleting task''), sample_db)"
proof -
  have h: "castObjectId sample_env ''7'' = Some 7"
    "list_all (\<lambda>t. task_id t \<noteq> 7 \<or> userId t \<noteq> 0) (tasks sample_db)"
    "castObjectId sample_env ''2'' = Some 2"
    "deleteTask sample_env sample_db 0 ''2'' =
     (Response 200 (MessageJson ''Task deleted successfully''),
      sample_db\<lparr>tasks := [ann_task2, bob_task]\<rparr>)"
    "castObjectId sample_env ''not-an-id'' = None"
    by code_simp+
  have q: "\<forall>t\<in>set (tasks sample_db). task_id t \<noteq> 7 \<or> userId t \<noteq> 0"
    using h(2) by (simp only: list_all_iff)
  show ?thesis
    using h q sample_ids
      delete_absent_is_not_found [of sample_env "''7''" 7 sample_db 0 3]
      delete_absent_is_not_found [of sample_env "''2''" 2 sample_db 0 2]
      delete_absent_is_not_found [of sample_env "''not-an-id''" 0 sample_db 0 3]
    by (simp add: numeral_3_eq_3)
qed

text \<open>
  The claim C8 as stated fails: Ann, authenticated, deletes under an id that is no
  ObjectId, which is the id of no task of hers, and the answer is 500, not 404.
\<close>

theorem delete_malformed_id:
  "castObjectId sample_env ''not-an-id'' = None \<and>
   authenticateToken sample_env 2000 sample_db (Some ''Bearer token-ann'') =
     Inr \<lparr>jwt_id = 0, jwt_iat = 1000, jwt_exp = 87400\<rparr> \<and>
   handle sample_env 2000 sample_db (Protected (Some ''Bearer token-ann'') (DeleteTask ''not-an-id'')) =
     (Response 500 (ErrorJson ''Error deleting task''), sample_db)"
  by code_simp

section \<open>Updating a task\<close>

lemma update_first_find:
  "find P xs = Some x \<Longrightarrow> P y \<Longrightarrow> find P (update_first P (\<lambda>z. y) xs) = Some y"
  by (induction xs) (auto split: if_splits)

lemma find_Some_P: "find P xs = Some x \<Longrightarrow> P x"
  by (induction xs) (auto split: if_splits)

lemma apply_update_owned:
  "owned_by tid uid t \<Longrightarrow> owned_by tid uid (apply_update e a b c d f t)"
  by (simp add: owned_by_def apply_update_def)

lemma find_first_split:
  "(\<forall>x\<in>set pre. \<not> P x) \<Longrightarrow> P t \<Longrightarrow> find P (pre @ t # post) = Some t"
  by (induction pre) auto

lemma update_first_split:
  "(\<forall>x\<in>set pre. \<not> P x) \<Longrightarrow> P t \<Longrightarrow> update_first P f (pre @ t # post) = pre @ f t # post"
  by (induction pre) auto

text \<open>
  C5. Let \<open>t\<close> be the first stored task with the id of the path and the caller as
  owner (in a reachable database the only one). \<^verbatim>\<open>PUT /tasks/:id\<close> replaces it, in
  place, by a task \<open>t'\<close> and changes nothing else: the tasks before and after it, the
  users and the id counter are as they were. In \<open>t'\<close> every field the request did not
  provide (title, description, status, priority, dueDate) has its prior value, as have
  the reminder date, the owner and the id. When the provided fields pass the casts and
  validators the answer is 200 with \<open>t'\<close>, whose provided fields have the values given;
  when they do not, the answer is 500 and \<open>t'\<close> is \<open>t\<close>.
\<close>

theorem update_changes_only_given_fields:
  "tasks st = pre @ t # post \<and> task_id t = tid \<and> userId t = uid \<and>
   (\<forall>x\<in>set pre. task_id x \<noteq> tid \<or> userId x \<noteq> uid) \<and> castObjectId e id' = Some tid \<longrightarrow>
     (\<exists>t'. updateTask e st uid id' title' description' status' priority' dueDate' =
             (if update_valid e title' description' status' priority' dueDate'
              then Response 200 (TaskJson t')
              else Response 500 (ErrorJson ''Error updating task''),
              st\<lparr>tasks := pre @ t' # post\<rparr>) \<and>
          Task_findOne (st\<lparr>tasks := pre @ t' # post\<rparr>) tid uid = Some t' \<and>
          (if title' = Undefined then title t' = title t else True) \<and>
          (if description' = Undefined then description t' = description t else True) \<and>
          (if status' = Undefined then status t' = status t else True) \<and>
          (if priority' = Undefined then priority t' = priority t else True) \<and>
          (if dueDate' = Undefined then dueDate t' = dueDate t else True) \<and>
          reminderDate t' = reminderDate t \<and> userId t' = userId t \<and> task_id t' = task_id t \<and>
          (if update_valid e title' description' status' priority' dueDate'
           then (if title' = Undefined then True else title t' = string_of title') \<and>
                (if description' = Undefined then True else description t' = string_of description') \<and>
                (if status' = Undefined then True else status t' = string_of status') \<and>
                (if priority' = Undefined then True else priority t' = string_of priority') \<and>
                (if dueDate' = Undefined then True
                 else castDate e (string_of dueDate') = Some (dueDate t'))
           else t' = t))"
proof (intro impI)
  assume a: "tasks st = pre @ t # post \<and> task_id t = tid \<and> userId t = uid \<and>
   (\<forall>x\<in>set pre. task_id x \<noteq> tid \<or> userId x \<noteq> uid) \<and> castObjectId e id' = Some tid"
  then have c: "castObjectId e id' = Some tid" and ts: "tasks st = pre @ t # post"
    by simp_all
  have np: "\<forall>x\<in>set pre. \<not> owned_by tid uid x" using a by (auto simp: owned_by_def)
  have o: "owned_by tid uid t" using a by (simp add: owned_by_def)
  have f: "Task_findOne st tid uid = Some t"
    using find_first_split [OF np o, of post] by (simp add: Task_findOne_def ts)
  have same: "st\<lparr>tasks := pre @ t # post\<rparr> = st" using ts by simp
  let ?u = "apply_update e title' description' status' priority' dueDate' t"
  let ?v = "update_valid e title' description' status' priority' dueDate'"
  let ?t' = "if ?v then ?u else t"
  have ou: "owned_by tid uid ?t'" using o apply_update_owned [OF o] by simp
  have r: "updateTask e st uid id' title' description' status' priority' dueDate' =
             (if ?v then Response 200 (TaskJson ?t')
              else Response 500 (ErrorJson ''Error updating task''),
              st\<lparr>tasks := pre @ ?t' # post\<rparr>)"
    using update_first_split [OF np o, of "\<lambda>x. ?u" post] same
    by (simp add: updateTask_def c f Let_def ts)
  have l: "Task_findOne (st\<lparr>tasks := pre @ ?t' # post\<rparr>) tid uid = Some ?t'"
    using find_first_split [OF np ou, of post] by (simp add: Task_findOne_def)
  have d: "?v \<Longrightarrow> dueDate' \<noteq> Undefined \<Longrightarrow> castDate e (string_of dueDate') = Some (dueDate ?u)"
    by (cases dueDate') (auto simp: update_valid_def apply_update_def)
  have g: "title' \<noteq> Undefined \<Longrightarrow> title ?u = string_of title'"
    "description' \<noteq> Undefined \<Longrightarrow> description ?u = string_of description'"
    "status' \<noteq> Undefined \<Longrightarrow> status ?u = string_of status'"
    "priority' \<noteq> Undefined \<Longrightarrow> priority ?u = string_of priority'"
    by (cases title'; cases description'; cases status'; cases priority';
        simp add: apply_update_def)+
  have k: "title' = Undefined \<Longrightarrow> title ?u = title t"
    "description' = Undefined \<Longrightarrow> description ?u = description t"
    "status' = Undefined \<Longrightarrow> status ?u = status t"
    "priority' = Undefined \<Longrightarrow> priority ?u = priority t"
    "dueDate' = Undefined \<Longrightarrow> dueDate ?u = dueDate t"
    "reminderDate ?u = reminderDate t" "userId ?u = userId t" "task_id ?u = task_id t"
    by (simp_all add: apply_update_def)
  show "\<exists>t'. updateTask e st uid id' title' description' status' priority' dueDate' =
             (if update_valid e title' description' status' priority' dueDate'
              then Response 200 (TaskJson t')
              else Response 500 (ErrorJson ''Error updating task''),
              st\<lparr>tasks := pre @ t' # post\<rparr>) \<and>
          Task_findOne (st\<lparr>tasks := pre @ t' # post\<rparr>) tid uid = Some t' \<and>
          (if title' = Undefined then title t' = title t else True) \<and>
          (if description' = Undefined then description t' = description t else True) \<and>
          (if status' = Undefined then status t' = status t else True) \<and>
          (if priority' = Undefined then priority t' = priority t else True) \<and>
          (if dueDate' = Undefined then dueDate t' = dueDate t else True) \<and>
          reminderDate t' = reminderDate t \<and> userId t' = userId t \<and> task_id t' = task_id t \<and>
          (if update_valid e title' description' status' priority' dueDate'
           then (if title' = Undefined then True else title t' = string_of title') \<and>
                (if description' = Undefined then True else description t' = string_of description') \<and>
                (if status' = Undefined then True else status t' = string_of status') \<and>
                (if priority' = Undefined then True else priority t' = string_of priority') \<and>
                (if dueDate' = Undefined then True
                 else castDate e (string_of dueDate') = Some (dueDate t'))
           else t' = t)"
  proof (cases ?v)
    case True
    show ?thesis
      apply (rule exI [of _ ?u])
      using True r l d g k by simp
  next
    case False
    show ?thesis
      apply (rule exI [of _ t])
      using False r l by simp
  qed
qed

theorem update_changes_only_given_fields_witness:
  "tasks sample_db = [] @ ann_task # [ann_task2, bob_task] \<and> task_id ann_task = 2 \<and>
   userId ann_task = 0 \<and> castObjectId sample_env ''2'' = Some 2 \<and>
   updateTask sample_env sample_db 0 ''2'' Undefined Undefined (Str ''completed'') Undefined Undefined =
     (Response 200 (TaskJson (ann_task\<lparr>status := ''completed''\<rparr>)),
      sample_db\<lparr>tasks := [ann_task\<lparr>status := ''completed''\<rparr>, ann_task2, bob_task]\<rparr>) \<and>
   (\<exists>t'. updateTask sample_env sample_db 0 ''2'' Undefined Undefined (Str ''completed'') Undefined
             Undefined =
           (Response 200 (TaskJson t'), sample_db\<lparr>tasks := [t', ann_task2, bob_task]\<rparr>) \<and>
         title t' = ''Write spec'' \<and> description t' = ''draft v1'' \<and> priority t' = ''medium'' \<and>
         dueDate t' = 1735689600000 \<and> status t' = ''completed'')"
proof -
  have h: "tasks sample_db = [] @ ann_task # [ann_task2, bob_task]" "task_id ann_task = 2"
    "userId ann_task = 0" "castObjectId sample_env ''2'' = Some 2"
    "updateTask sample_env sample_db 0 ''2'' Undefined Undefined (Str ''completed'') Undefined Undefined =
     (Response 200 (TaskJson (ann_task\<lparr>status := ''completed''\<rparr>)),
      sample_db\<lparr>tasks := [ann_task\<lparr>status := ''completed''\<rparr>, ann_task2, bob_task]\<rparr>)"
    "update_valid sample_env Undefined Undefined (Str ''completed'') Undefined Undefined"
    "title ann_task = ''Write spec''" "description ann_task = ''draft v1''"
    "priority ann_task = ''medium''" "dueDate ann_task = 1735689600000"
    by code_simp+
  have "\<exists>t'. updateTask sample_env sample_db 0 ''2'' Undefined Undefined (Str ''completed'') Undefined
             Undefined =
           (Response 200 (TaskJson t'), sample_db\<lparr>tasks := [t', ann_task2, bob_task]\<rparr>) \<and>
         title t' = ''Write spec'' \<and> description t' = ''draft v1'' \<and> priority t' = ''medium'' \<and>
         dueDate t' = 1735689600000 \<and> status t' = ''completed''"
    using h(1-4,6-10)
      update_changes_only_given_fields [of sample_db "[]" ann_task "[ann_task2, bob_task]" 2 0
        sample_env "''2''" Undefined Undefined "Str ''completed''" Undefined Undefined]
    by auto
  then show ?thesis using h by simp
qed

section \<open>Creating a task\<close>

lemma createTask_missing:
  "\<not> truthy title' \<or> \<not> truthy description' \<or> \<not> truthy dueDate' \<Longrightarrow>
   createTask e st uid title' description' status' priority' dueDate' =
     (Response 400 (ErrorJson ''Missing required fields''), st)"
  by (simp add: createTask_def)

text \<open>
  C6, as the code has it. When title, description or dueDate is missing (absent or
  empty), \<^verbatim>\<open>POST /tasks\<close> answers 400 "Missing required fields" and the database is
  unchanged. Otherwise, when \<^verbatim>\<open>dueDate\<close> is a date and the status and priority, given
  or defaulted, are values of their enumerations, it answers 201 with a new task that
  is appended to the collection, owned by the caller, with status \<open>pending\<close> and priority
  \<open>medium\<close> where the request gave none. In the remaining case the save fails: the
  answer is 500 "Error creating task" and no task is stored.
\<close>

theorem create_task_outcomes:
  "(if \<not> truthy title' \<or> \<not> truthy description' \<or> \<not> truthy dueDate'
    then createTask e st uid title' description' status' priority' dueDate' =
           (Response 400 (ErrorJson ''Missing required fields''), st)
    else if newDate e (string_of dueDate') \<noteq> None \<and>
            js_or status' ''pending'' \<in> set status_enum \<and>
            js_or priority' ''medium'' \<in> set priority_enum
    then (case newDate e (string_of dueDate') of
            None \<Rightarrow> False
          | Some d \<Rightarrow>
              createTask e st uid title' description' status' priority' dueDate' =
                (Response 201
                   (TaskJson
                      \<lparr>task_id = oid_counter st, title = string_of title',
                       description = string_of description',
                       status = (if truthy status' then string_of status' else ''pending''),
                       priority = (if truthy priority' then string_of priority' else ''medium''),
                       dueDate = d, reminderDate = None, userId = uid\<rparr>),
                 st\<lparr>oid_counter := Suc (oid_counter st),
                    tasks := tasks st @
                      [\<lparr>task_id = oid_counter st, title = string_of title',
                        description = string_of description',
                        status = (if truthy status' then string_of status' else ''pending''),
                        priority = (if truthy priority' then string_of priority' else ''medium''),
                        dueDate = d, reminderDate = None, userId = uid\<rparr>]\<rparr>))
    else fst (createTask e st uid title' description' status' priority' dueDate') =
           Response 500 (ErrorJson ''Error creating task'') \<and>
         tasks (snd (createTask e st uid title' description' status' priority' dueDate')) = tasks st)"
proof -
  have j: "js_or status' ''pending'' = (if truthy status' then string_of status' else ''pending'')"
    "js_or priority' ''medium'' = (if truthy priority' then string_of priority' else ''medium'')"
    by (cases status'; cases priority'; simp)+
  show ?thesis
    by (cases title'; cases description')
       (auto simp: createTask_def Let_def Task_validate_def j split: option.splits)
qed


theorem create_task_outcomes_witness:
  "createTask sample_env sample_db 0 (Str ''Write spec'') Undefined Undefined Undefined (Str ''2025-01-01'') =
     (Response 400 (ErrorJson ''Missing required fields''), sample_db) \<and>
   createTask sample_env sample_db 0 (Str ''Write spec'') (Str ''draft v1'') Undefined Undefined
       (Str ''2025-01-01'') =
     (Response 201 (TaskJson (ann_task\<lparr>task_id := 5\<rparr>)),
      sample_db\<lparr>oid_counter := 6, tasks := [ann_task, ann_task2, bob_task, ann_task\<lparr>task_id := 5\<rparr>]\<rparr>)"
proof -
  have h: "newDate sample_env ''2025-01-01'' = Some 1735689600000"
    "''pending'' \<in> set status_enum" "''medium'' \<in> set priority_enum"
    "oid_counter sample_db = 5" "tasks sample_db = [ann_task, ann_task2, bob_task]"
    "\<lparr>task_id = 5, title = ''Write spec'', description = ''draft v1'', status = ''pending'',
      priority = ''medium'', dueDate = 1735689600000, reminderDate = None, userId = 0\<rparr> =
     ann_task\<lparr>task_id := 5\<rparr>"
    by code_simp+
  show ?thesis
    using h
      create_task_outcomes [of "Str ''Write spec''" Undefined "Str ''2025-01-01''" sample_env
        sample_db 0 Undefined Undefined]
      create_task_outcomes [of "Str ''Write spec''" "Str ''draft v1''" "Str ''2025-01-01''" sample_env
        sample_db 0 Undefined Undefined]
    by simp
qed

text \<open>
  The claim C6 as stated fails: a request with title, description and a \<^verbatim>\<open>dueDate\<close>
  that is no date has none of the three missing, and no task is created; nor is one
  created when the date is valid and the status given is no value of the enumeration.
\<close>

theorem create_task_invalid_date:
  "truthy (Str ''Write spec'') \<and> truthy (Str ''draft v1'') \<and> truthy (Str ''someday'') \<and>
   fst (createTask sample_env sample_db 0 (Str ''Write spec'') (Str ''draft v1'') Undefined Undefined
          (Str ''someday'')) = Response 500 (ErrorJson ''Error creating task'') \<and>
   tasks (snd (createTask sample_env sample_db 0 (Str ''Write spec'') (Str ''draft v1'') Undefined
                 Undefined (Str ''someday''))) = tasks sample_db \<and>
   truthy (Str ''2025-01-01'') \<and>
   fst (createTask sample_env sample_db 0 (Str ''Write spec'') (Str ''draft v1'') (Str ''done'')
          Undefined (Str ''2025-01-01'')) = Response 500 (ErrorJson ''Error creating task'') \<and>
   tasks (snd (createTask sample_env sample_db 0 (Str ''Write spec'') (Str ''draft v1'') (Str ''done'')
                 Undefined (Str ''2025-01-01''))) = tasks sample_db"
  by code_simp

section \<open>Listing tasks\<close>

lemma sorted_neg_key:
  fixes f :: "'a \<Rightarrow> int"
  shows "sorted (map (\<lambda>t. - f t) xs) \<Longrightarrow> sorted (rev (map f xs))"
  by (simp add: sorted_map sorted_wrt_rev sorted_wrt_map flip: rev_map)

lemma list_query_unfold:
  "list_query uid status' priority' =
      (\<lambda>t. userId t = uid \<and>
              (if truthy status' then status t = string_of status' else True) \<and>
              (if truthy priority' then priority t = string_of priority' else True))"
  by (rule ext) (simp add: list_query_def)

lemma list_query_no_filter:
  "\<not> truthy status' \<Longrightarrow> \<not> truthy priority' \<Longrightarrow>
   list_query uid status' priority' = (\<lambda>t. userId t = uid)"
  by (rule ext) (simp add: list_query_def)

lemma sort_key_Nil_iff: "(sort_key k xs = []) = (xs = [])"
proof -
  have "length (sort_key k xs) = length xs" by simp
  then show ?thesis by (metis length_0_conv)
qed

lemma listTasks_sorted:
  "\<exists>ts. listTasks st uid status' priority' sort' = (Response 200 (TasksJson ts), st) \<and>
     mset ts = filter_mset (list_query uid status' priority') (mset (tasks st)) \<and>
     (if sort' = Str ''desc'' then sorted (rev (map dueDate ts)) else sorted (map dueDate ts)) \<and>
     (ts = []) = (filter (list_query uid status' priority') (tasks st) = [])"
proof (cases "sort' = Str ''desc''")
  case True
  let ?found = "filter (list_query uid status' priority') (tasks st)"
  have "sorted (rev (map dueDate (sort_key (\<lambda>t. - dueDate t) ?found)))"
    by (rule sorted_neg_key) (rule sorted_sort_key)
  then show ?thesis
    using True by (simp add: listTasks_def Let_def sort_key_Nil_iff)
next
  case False
  then show ?thesis
    by (simp add: listTasks_def Let_def sort_key_Nil_iff)
qed

text \<open>
  C7. \<^verbatim>\<open>GET /tasks\<close> always answers 200 and leaves the database unchanged. The list it
  returns holds exactly the stored tasks whose owner is the caller and that match the
  status filter and the priority filter, each applied when the query parameter is a
  non-empty string; it is in ascending order of \<^verbatim>\<open>dueDate\<close>, and in descending order
  when \<^verbatim>\<open>sort\<close> is \<open>desc\<close>. Without filters it holds all of the caller's tasks, and it is
  empty exactly when no task matches.
\<close>

theorem list_tasks_result:
  "\<exists>ts. listTasks st uid status' priority' sort' = (Response 200 (TasksJson ts), st) \<and>
     mset ts =
       filter_mset
         (\<lambda>t. userId t = uid \<and>
              (if truthy status' then status t = string_of status' else True) \<and>
              (if truthy priority' then priority t = string_of priority' else True))
         (mset (tasks st)) \<and>
     (if sort' = Str ''desc'' then sorted (rev (map dueDate ts)) else sorted (map dueDate ts)) \<and>
     (if truthy status' \<or> truthy priority' then True
      else mset ts = filter_mset (\<lambda>t. userId t = uid) (mset (tasks st))) \<and>
     (ts = []) =
       (filter
          (\<lambda>t. userId t = uid \<and>
               (if truthy status' then status t = string_of status' else True) \<and>
               (if truthy priority' then priority t = string_of priority' else True))
          (tasks st) = [])"
proof -
  obtain ts where t: "listTasks st uid status' priority' sort' = (Response 200 (TasksJson ts), st)"
    "mset ts = filter_mset (list_query uid status' priority') (mset (tasks st))"
    "if sort' = Str ''desc'' then sorted (rev (map dueDate ts)) else sorted (map dueDate ts)"
    "(ts = []) = (filter (list_query uid status' priority') (tasks st) = [])"
    using listTasks_sorted [of st uid status' priority' sort'] by blast
  have n: "if truthy status' \<or> truthy priority' then True
      else mset ts = filter_mset (\<lambda>t. userId t = uid) (mset (tasks st))"
    using t(2) list_query_no_filter [of status' priority' uid] by simp
  show ?thesis
    apply (rule exI [of _ ts])
    apply (intro conjI)
    subgoal by (rule t(1))
    subgoal using t(2) by (simp only: list_query_unfold)
    subgoal by (rule t(3))
    subgoal by (rule n)
    subgoal using t(4) by (simp only: list_query_unfold)
    done
qed

theorem list_tasks_result_witness:
  "listTasks sample_db 0 Undefined Undefined (Str ''desc'') =
     (Response 200 (TasksJson [ann_task, ann_task2]), sample_db) \<and>
   listTasks sample_db 0 Undefined Undefined Undefined =
     (Response 200 (TasksJson [ann_task2, ann_task]), sample_db) \<and>
   listTasks sample_db 0 (Str ''completed'') (Str ''high'') Undefined =
     (Response 200 (TasksJson [ann_task2]), sample_db) \<and>
   listTasks sample_db 1 (Str ''completed'') Undefined Undefined =
     (Response 200 (TasksJson []), sample_db) \<and>
   (\<exists>ts. listTasks sample_db 1 (Str ''completed'') Undefined Undefined =
       (Response 200 (TasksJson ts), sample_db) \<and> ts = [])"
proof -
  have h: "listTasks sample_db 0 Undefined Undefined (Str ''desc'') =
     (Response 200 (TasksJson [ann_task, ann_task2]), sample_db)"
   "listTasks sample_db 0 Undefined Undefined Undefined =
     (Response 200 (TasksJson [ann_task2, ann_task]), sample_db)"
   "listTasks sample_db 0 (Str ''completed'') (Str ''high'') Undefined =
     (Response 200 (TasksJson [ann_task2]), sample_db)"
   "listTasks sample_db 1 (Str ''completed'') Undefined Undefined =
     (Response 200 (TasksJson []), sample_db)"
    by code_simp+
  have "\<exists>ts. listTasks sample_db 1 (Str ''completed'') Undefined Undefined =
       (Response 200 (TasksJson ts), sample_db) \<and> ts = []"
    using list_tasks_result [of sample_db 1 "Str ''completed''" Undefined Undefined] h(4)
    by auto
  then show ?thesis using h by simp
qed

section \<open>Normal forms of email addresses\<close>

lemma is_space_code: "is_space c \<longleftrightarrow> of_char c \<in> {32, 9, 10, 11, 12, 13 :: nat}"
proof -
  have e: "\<And>d n. of_char d = (n::nat) \<Longrightarrow> (c = d) = (of_char c = n)" by auto
  have "(c = CHR '' '') = (of_char c = (32::nat))" "(c = CHR 0x09) = (of_char c = (9::nat))"
    "(c = CHR 0x0A) = (of_char c = (10::nat))" "(c = CHR 0x0B) = (of_char c = (11::nat))"
    "(c = CHR 0x0C) = (of_char c = (12::nat))" "(c = CHR 0x0D) = (of_char c = (13::nat))"
    by (rule e, simp)+
  then show ?thesis by (simp add: is_space_def)
qed

lemma lower_char_space: "is_space (lower_char c) = is_space c"
  by (auto simp: is_space_code lower_char_def Let_def)

lemma lower_char_idem: "lower_char (lower_char c) = lower_char c"
  by (auto simp: lower_char_def Let_def)

lemma dropWhile_lower:
  "dropWhile is_space (map lower_char s) = map lower_char (dropWhile is_space s)"
  by (induction s) (simp_all add: lower_char_space)

lemma trim_lower: "trim (toLowerCase s) = toLowerCase (trim s)"
  by (simp add: trim_def toLowerCase_def dropWhile_lower rev_map)

lemma dropWhile_last: "dropWhile P xs \<noteq> [] \<Longrightarrow> last (dropWhile P xs) = last xs"
  by (induction xs) (auto split: if_splits)

lemma dropWhile_self: "xs = [] \<or> \<not> P (hd xs) \<Longrightarrow> dropWhile P xs = xs"
  by (cases xs) auto

lemma dropWhile_rev_not_Nil: "dropWhile P (rev t) \<noteq> [] \<Longrightarrow> t \<noteq> []"
  by auto

lemma trim_core:
  assumes "t = [] \<or> \<not> P (hd t)"
  defines "u \<equiv> dropWhile P (rev t)"
  shows "dropWhile P (rev u) = rev u \<and> dropWhile P u = u"
proof (cases "u = []")
  case True
  then show ?thesis by simp
next
  case False
  then have n: "dropWhile P (rev t) \<noteq> []" by (simp add: u_def)
  have t: "t \<noteq> []" using n by (rule dropWhile_rev_not_Nil)
  have "last u = last (rev t)" unfolding u_def using n by (rule dropWhile_last)
  then have l: "last u = hd t" using t by (simp add: last_rev)
  have h: "\<not> P (hd u)" unfolding u_def using n by (rule hd_dropWhile)
  have "\<not> P (hd (rev u))" using l False assms(1) t by (simp add: hd_rev)
  then have "dropWhile P (rev u) = rev u" by (intro dropWhile_self disjI2)
  moreover have "dropWhile P u = u" using h by (intro dropWhile_self disjI2)
  ultimately show ?thesis by simp
qed

lemma trim_idem: "trim (trim s) = trim s"
proof -
  have "dropWhile is_space s = [] \<or> \<not> is_space (hd (dropWhile is_space s))"
    using hd_dropWhile [of is_space s] by blast
  from trim_core [of "dropWhile is_space s" is_space, OF this] show ?thesis
    by (simp add: trim_def)
qed

lemma normalized_idem: "normalized (normalized s) = normalized s"
proof -
  have "toLowerCase (toLowerCase x) = toLowerCase x" for x
    by (simp add: toLowerCase_def lower_char_idem)
  then show ?thesis
    by (simp add: normalized_def trim_lower trim_idem)
qed


section \<open>Registration, case by case\<close>

lemma User_findOne_None:
  "(User_findOne st em = None) = (normalized em \<notin> set (map email (users st)))"
  by (force simp: User_findOne_def normalized_def find_None_iff2)

lemma register_cases:
  "register e now st name' email' password' =
     (if \<not> truthy name' \<or> \<not> truthy email' \<or> \<not> truthy password'
      then (Response 400 (MessageJson ''Please provide name, email, and password''), st)
      else if normalized (string_of email') \<in> set (map email (users st))
      then (Response 400 (ErrorJson ''Email already in use''), st)
      else if trim (string_of name') = [] \<or> normalized (string_of email') = [] \<or>
              length (string_of password') < 6
      then (Response 500 (ErrorJson ''Server error during registration''),
            st\<lparr>oid_counter := Suc (oid_counter st)\<rparr>)
      else (Response 201
              (RegisterJson ''User registered successfully'' (oid_counter st)
                 (trim (string_of name')) (normalized (string_of email'))
                 (jwt_sign e now (oid_counter st))),
            st\<lparr>oid_counter := Suc (oid_counter st),
               users := users st @
                 [\<lparr>user_id = oid_counter st, name = trim (string_of name'),
                   email = normalized (string_of email'),
                   password = bcrypt_hash e (string_of password')\<rparr>]\<rparr>))"
proof (cases "User_findOne st (string_of email')")
  case None
  then have n: "normalized (string_of email') \<notin> set (map email (users st))"
    by (simp add: User_findOne_None)
  have m: "normalized (string_of email') \<notin> email ` set (users st)"
    using n by simp
  show ?thesis
    using None n m
    by (cases password')
       (auto simp: register_def Let_def User_save_def User_validate_def new_User_def
          normalized_def)
next
  case (Some u)
  then have "normalized (string_of email') \<in> set (map email (users st))"
    using User_findOne_None [of st "string_of email'"] by simp
  then show ?thesis using Some by (simp add: register_def)
qed


section \<open>The invariant of the database\<close>

lemma update_first_ids:
  "(\<And>x. P x \<Longrightarrow> task_id (f x) = task_id x) \<Longrightarrow>
   map task_id (update_first P f xs) = map task_id xs"
  by (induction xs) auto

lemma task_bound_cong:
  assumes "map task_id xs = map task_id ys"
  shows "list_all (\<lambda>t. task_id t < c) xs = list_all (\<lambda>t. task_id t < c) ys"
proof -
  have a: "list_all (\<lambda>t. task_id t < c) zs = list_all (\<lambda>i. i < c) (map task_id zs)" for zs
    by (simp add: list.pred_map comp_def)
  show ?thesis by (simp only: a assms)
qed

lemma update_first_inv:
  assumes "db_inv st" "\<And>x. P x \<Longrightarrow> task_id (f x) = task_id x"
  shows "db_inv (st\<lparr>tasks := update_first P f (tasks st)\<rparr>)"
proof -
  have m: "map task_id (update_first P f (tasks st)) = map task_id (tasks st)"
    using assms(2) by (rule update_first_ids)
  show ?thesis
    using assms(1) by (simp add: db_inv_def m task_bound_cong [OF m])
qed

lemma register_inv: "db_inv st \<Longrightarrow> db_inv (snd (register e now st n em p))"
  by (auto simp: register_cases db_inv_def normalized_idem list_all_iff)

lemma login_state: "snd (login e now st em p) = st"
  by (simp add: login_def split: option.splits)

lemma createTask_inv: "db_inv st \<Longrightarrow> db_inv (snd (createTask e st uid t d s p due))"
  by (auto simp: createTask_def db_inv_def Let_def list_all_iff split: option.splits)

lemma updateTask_inv:
  assumes "db_inv st"
  shows "db_inv (snd (updateTask e st uid i t d s p due))"
proof (cases "castObjectId e i")
  case None
  then show ?thesis using assms by (simp add: updateTask_def)
next
  case (Some tid)
  show ?thesis
  proof (cases "Task_findOne st tid uid")
    case None
    then show ?thesis using assms Some by (simp add: updateTask_def)
  next
    case (Some x)
    then have o: "owned_by tid uid x"
      using find_Some_P [of "owned_by tid uid" "tasks st" x] by (simp add: Task_findOne_def)
    let ?u = "apply_update e t d s p due x"
    have "db_inv (st\<lparr>tasks := update_first (owned_by tid uid) (\<lambda>z. ?u) (tasks st)\<rparr>)"
      using assms o by (intro update_first_inv) (simp_all add: owned_by_def apply_update_def)
    then show ?thesis
      using assms Some \<open>castObjectId e i = Some tid\<close>
      by (simp add: updateTask_def Let_def)
  qed
qed

lemma deleteTask_inv: "db_inv st \<Longrightarrow> db_inv (snd (deleteTask e st uid i))"
  using delete_first_subset [of _ "tasks st"]
  by (auto simp: deleteTask_def db_inv_def delete_first_distinct list_all_iff
      split: option.splits)

lemma setReminder_inv:
  assumes "db_inv st"
  shows "db_inv (snd (setReminder e st uid i r))"
proof -
  have "db_inv (st\<lparr>tasks := update_first (\<lambda>x. task_id x = task_id t)
      (\<lambda>x. t\<lparr>reminderDate := Some d\<rparr>) (tasks st)\<rparr>)" for t d
    using assms by (intro update_first_inv) simp_all
  then show ?thesis
    using assms
    by (simp add: setReminder_def Let_def split: option.splits)
qed

lemma task_handler_inv: "db_inv st \<Longrightarrow> db_inv (snd (task_handler e st uid r))"
  by (cases r)
     (simp_all add: createTask_inv updateTask_inv deleteTask_inv setReminder_inv
        listTasks_def getTask_def Let_def split: option.splits)

lemma handle_inv: "db_inv st \<Longrightarrow> db_inv (snd (handle e now st r))"
  by (cases r) (simp_all add: register_inv login_state task_handler_inv split: sum.splits)

lemma run_inv: "db_inv st \<Longrightarrow> db_inv (run e st rs)"
  by (induction rs arbitrary: st) (auto simp: handle_inv)

lemma empty_db_inv: "db_inv empty_db"
  by (simp add: db_inv_def empty_db_def)

text \<open>Every database that the requests can produce satisfies the invariant.\<close>

lemma reachable_db_inv: "db_inv (run e empty_db rs)"
  by (simp add: run_inv empty_db_inv)

section \<open>Users are never removed\<close>





section \<open>Uniqueness of email addresses\<close>






text \<open>The handler is its two parts, run on the same store.\<close>

lemma register_split:
  "register e now st n em p =
     (case register_lookup st n em p of
        Some r \<Rightarrow> (r, st)
      | None \<Rightarrow> register_create e now st n em p)"
  by (simp add: register_def register_lookup_def register_create_def split: option.splits)














text \<open>Requests handled one after the other are a special case of the events.\<close>

lemma exec_Whole_run:
  "sdb (exec e s (map (\<lambda>x. Whole (fst x) (snd x)) rs)) = run e (sdb s) rs"
  by (induction rs arbitrary: s) (auto simp: Let_def)







lemma begin_pending:
  "k \<notin> set (map fst (pending s)) \<Longrightarrow>
   map_of (pending (step e s (Begin k n em p))) k = Some (n, em, p, register_lookup (sdb s) n em p) \<and>
   sdb (step e s (Begin k n em p)) = sdb s \<and> outcomes (step e s (Begin k n em p)) = outcomes s"
  by simp







section \<open>Passwords shorter than six characters\<close>

text \<open>
  C10, as the code has it. A registration with name and email present, a non-empty
  password of fewer than 6 characters and an email that is not yet in use is answered
  500 "Server error during registration": the save fails on \<^verbatim>\<open>minlength\<close>. Whatever
  else the request holds, a registration with a password of fewer than 6 characters
  stores no user and changes no task.
\<close>

theorem short_password_not_registered:
  "(truthy name' \<and> truthy email' \<and> truthy password' \<and> length (string_of password') < 6 \<and>
    User_findOne st (string_of email') = None \<longrightarrow>
      fst (register e now st name' email' password') =
        Response 500 (ErrorJson ''Server error during registration'')) \<and>
   (length (string_of password') < 6 \<longrightarrow>
      User_save e st'
        (new_User st (string_of name') (string_of email') (string_of password')) =
        Inl ValidationError \<and>
      users (snd (register e now st name' email' password')) = users st \<and>
      tasks (snd (register e now st name' email' password')) = tasks st)"
  by (simp add: register_cases User_findOne_None User_save_def User_validate_def new_User_def)

lemma sample_eve_facts:
  "User_findOne sample_db ''eve@x.com'' = None"
  by code_simp

theorem short_password_not_registered_witness:
  "User_findOne sample_db ''eve@x.com'' = None \<and> length ''abc'' < 6 \<and>
   fst (register sample_env 2000 sample_db (Str ''Eve'') (Str ''eve@x.com'') (Str ''abc'')) =
     Response 500 (ErrorJson ''Server error during registration'') \<and>
   User_save sample_env (sample_db\<lparr>oid_counter := 6\<rparr>)
     (new_User sample_db ''Eve'' ''eve@x.com'' ''abc'') = Inl ValidationError \<and>
   users (snd (register sample_env 2000 sample_db (Str ''Eve'') (Str ''eve@x.com'') (Str ''abc''))) =
     users sample_db"
  using sample_eve_facts
    short_password_not_registered [of "Str ''Eve''" "Str ''eve@x.com''" "Str ''abc''" sample_db
      sample_env 2000 "sample_db\<lparr>oid_counter := 6\<rparr>"]
  by simp

text \<open>
  The claim C10 as stated fails: with a password of three characters and an email
  already in use the answer is 400 "Email already in use", and with an empty password
  it is 400 "Please provide name, email, and password"; neither is a 500.
\<close>

theorem short_password_other_answers:
  "length ''abc'' < 6 \<and> truthy (Str ''Eve'') \<and> truthy (Str ''ann@x.com'') \<and>
   register sample_env 2000 sample_db (Str ''Eve'') (Str ''ann@x.com'') (Str ''abc'') =
     (Response 400 (ErrorJson ''Email already in use''), sample_db) \<and>
   length ([] :: string) < 6 \<and>
   register sample_env 2000 sample_db (Str ''Eve'') (Str ''eve@x.com'') (Str []) =
     (Response 400 (MessageJson ''Please provide name, email, and password''), sample_db)"
  by code_simp

end
